theory Spec2Isabelle
  imports Complex_Main "HOL-Library.Sublist"
begin

section \<open>Wire values and exceptions\<close>

text \<open>
  The client exchanges JSON with the service. A decoded JSON document is a Python value
  built from \<open>None\<close>, booleans, integers, floats, strings, lists and dictionaries with
  string keys. A dictionary is kept as an association list: the keys of a Python
  dictionary are distinct, a lookup finds the entry of a key wherever it stands.
  Floats are modelled by real numbers (the codecs only pass them through, and the
  validation of the client only compares them with integer bounds).
\<close>

datatype json =
    JNull
  | JBool bool
  | JInt int
  | JFloat real
  | JStr string
  | JList "json list"
  | JDict "(string \<times> json) list"

type_synonym pydict = "(string \<times> json) list"

text \<open>
  The exceptions the modelled code can raise; those with a message carry it.
  \<open>SerdeError\<close> is the exception of the package \<open>pyserde\<close>.
\<close>

datatype error =
    KeyError string
  | TypeError
  | IndexError
  | AttributeError
  | ValueError string
  | RuntimeError string
  | SerdeError

text \<open>Sequencing of fallible steps: the first exception ends the computation.\<close>

definition bind :: "error + 'a \<Rightarrow> ('a \<Rightarrow> error + 'b) \<Rightarrow> error + 'b" where
  "bind m f = (case m of Inl e \<Rightarrow> Inl e | Inr x \<Rightarrow> f x)"

text \<open>\<open>d.get(k)\<close> on a dictionary: the value, or \<open>None\<close> when the key is absent.\<close>

definition dict_get :: "pydict \<Rightarrow> string \<Rightarrow> json" where
  "dict_get d k = (case map_of d k of None \<Rightarrow> JNull | Some v \<Rightarrow> v)"

text \<open>
  \<open>x[k]\<close> with a string key: on a dictionary the value or \<open>KeyError\<close>; every other JSON
  value rejects a string subscript with \<open>TypeError\<close>.
\<close>

definition getitem :: "json \<Rightarrow> string \<Rightarrow> error + json" where
  "getitem x k =
     (case x of
        JDict d \<Rightarrow> (case map_of d k of None \<Rightarrow> Inl (KeyError k) | Some v \<Rightarrow> Inr v)
      | _ \<Rightarrow> Inl TypeError)"

text \<open>Truth value of a JSON value, as \<open>or\<close> and \<open>if\<close> test it.\<close>

fun truthy :: "json \<Rightarrow> bool" where
  "truthy JNull = False"
| "truthy (JBool b) = b"
| "truthy (JInt i) = (i \<noteq> 0)"
| "truthy (JFloat r) = (r \<noteq> 0)"
| "truthy (JStr s) = (s \<noteq> [])"
| "truthy (JList xs) = (xs \<noteq> [])"
| "truthy (JDict d) = (d \<noteq> [])"

text \<open>
  \<open>x.get(k)\<close>: only a dictionary has the method.
\<close>

definition get_method :: "json \<Rightarrow> string \<Rightarrow> error + json" where
  "get_method x k = (case x of JDict d \<Rightarrow> Inr (dict_get d k) | _ \<Rightarrow> Inl AttributeError)"

text \<open>
  What a \<open>for\<close> loop iterates over: the elements of a list, the keys of a dictionary, the
  characters of a string; the other JSON values are not iterable.
\<close>

definition iter_json :: "json \<Rightarrow> error + json list" where
  "iter_json x =
     (case x of
        JList xs \<Rightarrow> Inr xs
      | JDict d \<Rightarrow> Inr (map (\<lambda>kv. JStr (fst kv)) d)
      | JStr s \<Rightarrow> Inr (map (\<lambda>c. JStr [c]) s)
      | _ \<Rightarrow> Inl TypeError)"

text \<open>
  A value usable as an integer (an index, an argument of \<open>range\<close> or of
  \<open>datetime.time\<close>): an integer, or a boolean, which Python counts as 0 or 1.
\<close>

definition as_int :: "json \<Rightarrow> int option" where
  "as_int x = (case x of JInt i \<Rightarrow> Some i | JBool b \<Rightarrow> Some (if b then 1 else 0) | _ \<Rightarrow> None)"

text \<open>A number in a comparison: an integer, a float or a boolean.\<close>

definition as_num :: "json \<Rightarrow> real option" where
  "as_num x =
     (case x of
        JInt i \<Rightarrow> Some (of_int i)
      | JFloat r \<Rightarrow> Some r
      | JBool b \<Rightarrow> Some (if b then 1 else 0)
      | _ \<Rightarrow> None)"

text \<open>
  \<open>a == b\<close> on JSON values: numbers (booleans among them) are equal by value whatever
  their type, lists element by element, dictionaries when they have the same keys with
  equal values, in any order.
\<close>

fun py_eq :: "json \<Rightarrow> json \<Rightarrow> bool"
  and py_eq_list :: "json list \<Rightarrow> json list \<Rightarrow> bool"
  and py_eq_entries :: "(string \<times> json) list \<Rightarrow> (string \<times> json) list \<Rightarrow> bool" where
  "py_eq JNull b = (b = JNull)"
| "py_eq (JBool x) b = (as_num b = Some (if x then 1 else 0))"
| "py_eq (JInt i) b = (as_num b = Some (of_int i))"
| "py_eq (JFloat r) b = (as_num b = Some r)"
| "py_eq (JStr s) b = (b = JStr s)"
| "py_eq (JList xs) b = (case b of JList ys \<Rightarrow> py_eq_list xs ys | _ \<Rightarrow> False)"
| "py_eq (JDict d) b =
     (case b of JDict e \<Rightarrow> length d = length e \<and> py_eq_entries d e | _ \<Rightarrow> False)"
| "py_eq_list [] ys = (ys = [])"
| "py_eq_list (x # xs) ys =
     (case ys of [] \<Rightarrow> False | y # rest \<Rightarrow> py_eq x y \<and> py_eq_list xs rest)"
| "py_eq_entries [] e = True"
| "py_eq_entries ((k, v) # d) e =
     ((case map_of e k of None \<Rightarrow> False | Some v' \<Rightarrow> py_eq v v') \<and> py_eq_entries d e)"

section \<open>\<open>places.py\<close>: opening hours\<close>

text \<open>
  \<open>datetime.time(hour, minute)\<close>: both arguments must be integers (\<open>TypeError\<close>), the
  hour in \<open>0..23\<close> and the minute in \<open>0..59\<close> (\<open>ValueError\<close>).
\<close>

datatype time = Time (hour: int) (minute: int)

definition datetime_time :: "json \<Rightarrow> json \<Rightarrow> error + time" where
  "datetime_time h m =
     (case (as_int h, as_int m) of
        (Some hh, Some mm) \<Rightarrow>
          if \<not> (0 \<le> hh \<and> hh \<le> 23) then Inl (ValueError ''hour must be in 0..23'')
          else if \<not> (0 \<le> mm \<and> mm \<le> 59) then Inl (ValueError ''minute must be in 0..59'')
          else Inr (Time hh mm)
      | _ \<Rightarrow> Inl TypeError)"

text \<open>\<open>datetime.time(point["hour"], point["minute"])\<close>: the two subscripts come first.\<close>

definition time_of_point :: "json \<Rightarrow> error + time" where
  "time_of_point point =
     bind (getitem point ''hour'') (\<lambda>h.
     bind (getitem point ''minute'') (\<lambda>m.
     datetime_time h m))"

type_synonym interval = "time option \<times> time option"

record OpeningHours =
  periods :: "interval list list"
  weekday_descriptions :: json

text \<open>
  \<open>periods[i].append(x)\<close>: a negative index counts from the end of the list, an index
  outside the list raises \<open>IndexError\<close>.
\<close>

definition append_at :: "interval list list \<Rightarrow> int \<Rightarrow> interval \<Rightarrow> error + interval list list" where
  "append_at ps i x =
     (let n = int (length ps); j = (if i < 0 then i + n else i)
      in if 0 \<le> j \<and> j < n then Inr (ps[nat j := ps ! nat j @ [x]]) else Inl IndexError)"

text \<open>
  A loop \<open>for i in ...: periods[i].append(f(i))\<close>, where computing the pair may raise.
\<close>

fun append_each ::
  "(int \<Rightarrow> error + interval) \<Rightarrow> int list \<Rightarrow> interval list list \<Rightarrow> error + interval list list" where
  "append_each f [] ps = Inr ps"
| "append_each f (i # is) ps =
     bind (f i) (\<lambda>x. bind (append_at ps i x) (append_each f is))"

text \<open>
  The body of the loop over the periods for a period with a \<open>close\<close>: the statements
  after the \<open>if end is None\<close> block. With equal days the two times are built first and
  the day is then used as an index, which must be an integer. With different days,
  \<open>range(start_day, end_day + 1)\<close> wants two integers, and raises \<open>TypeError\<close> before
  any time is built when it does not get them.
\<close>

definition place_period :: "interval list list \<Rightarrow> json \<Rightarrow> json \<Rightarrow> error + interval list list" where
  "place_period ps start end =
     bind (getitem start ''day'') (\<lambda>start_day.
     bind (getitem end ''day'') (\<lambda>end_day.
     if py_eq start_day end_day then
       bind (time_of_point start) (\<lambda>s.
       bind (time_of_point end) (\<lambda>e.
       case as_int start_day of
         None \<Rightarrow> Inl TypeError
       | Some sd \<Rightarrow> append_at ps sd (Some s, Some e)))
     else
       (case as_int start_day of
          None \<Rightarrow> Inl TypeError
        | Some sd \<Rightarrow>
           (case as_int end_day of
              None \<Rightarrow> Inl TypeError
            | Some ed \<Rightarrow>
                append_each
                  (\<lambda>i. if i = sd then bind (time_of_point start) (\<lambda>s. Inr (Some s, None))
                       else if i = ed then bind (time_of_point end) (\<lambda>e. Inr (None, Some e))
                       else Inr (None, None))
                  [sd..ed] ps))))"

text \<open>
  The whole body of the loop, for one period. \<open>n\<close> is \<open>len(data["periods"])\<close>; the
  boolean of the result says whether the loop ends here (\<open>break\<close>).
\<close>

definition period_step ::
  "nat \<Rightarrow> interval list list \<Rightarrow> json \<Rightarrow> error + (bool \<times> interval list list)" where
  "period_step n ps period =
     bind (getitem period ''open'') (\<lambda>start.
     bind (get_method period ''close'') (\<lambda>end.
     if end = JNull then
       (if n > 1 then Inl (RuntimeError ''If you see this message, please report it as a bug.'')
        else bind (append_each (\<lambda>i. Inr (None, None)) [0..6] ps) (\<lambda>ps'. Inr (True, ps')))
     else
       bind (place_period ps start end) (\<lambda>ps'. Inr (False, ps'))))"

fun periods_loop :: "nat \<Rightarrow> json list \<Rightarrow> interval list list \<Rightarrow> error + interval list list" where
  "periods_loop n [] ps = Inr ps"
| "periods_loop n (period # rest) ps =
     bind (period_step n ps period) (\<lambda>r. if fst r then Inr (snd r) else periods_loop n rest (snd r))"

text \<open>\<open>periods[1:] + [periods[0]]\<close>: from Sunday-based to Monday-based.\<close>

definition rotate_week :: "interval list list \<Rightarrow> error + interval list list" where
  "rotate_week ps = (case ps of [] \<Rightarrow> Inl IndexError | p0 # rest \<Rightarrow> Inr (rest @ [p0]))"

definition OpeningHours_from_api_format :: "json \<Rightarrow> error + OpeningHours" where
  "OpeningHours_from_api_format data =
     bind (getitem data ''weekdayDescriptions'') (\<lambda>wd.
     bind (getitem data ''periods'') (\<lambda>pj.
     bind (iter_json pj) (\<lambda>items.
     bind (periods_loop (length items) items (replicate 7 [])) (\<lambda>ps.
     bind (rotate_week ps) (\<lambda>ps'.
     Inr \<lparr> periods = ps', weekday_descriptions = wd \<rparr>)))))"

text \<open>
  A period without closing time: a dictionary whose \<open>get("close")\<close> is \<open>None\<close> (the key
  is absent, or its value is \<open>null\<close>).
\<close>

definition no_close :: "json \<Rightarrow> bool" where
  "no_close p = (case p of JDict d \<Rightarrow> dict_get d ''close'' = JNull | _ \<Rightarrow> False)"

section \<open>\<open>_exceptions.py\<close>: the error of the service\<close>

record APIError =
  status_code :: int
  message :: json
  status :: json
  details :: json

definition APIError_from_api_response :: "int \<Rightarrow> pydict \<Rightarrow> APIError" where
  "APIError_from_api_response code response =
     \<lparr> status_code = code,
       message = dict_get response ''message'',
       status = dict_get response ''status'',
       details = dict_get response ''details'' \<rparr>"

text \<open>
  \<open>__str__\<close> formats \<open>self.message or "Unknown error"\<close> after the class name. A string
  is formatted as itself; the text Python's \<open>str\<close> gives any other value is the
  parameter \<open>fmt\<close>.
\<close>

definition APIError_str :: "(json \<Rightarrow> string) \<Rightarrow> APIError \<Rightarrow> string" where
  "APIError_str fmt e =
     ''APIError: '' @
       (if truthy (message e)
        then (case message e of JStr s \<Rightarrow> s | v \<Rightarrow> fmt v)
        else ''Unknown error'')"

section \<open>Strings\<close>

text \<open>ASCII letters and their case, as \<open>str.lower\<close> and the casing functions use them.\<close>

definition upper_letters :: string where
  "upper_letters = ''ABCDEFGHIJKLMNOPQRSTUVWXYZ''"

definition lower_letters :: string where
  "lower_letters = ''abcdefghijklmnopqrstuvwxyz''"

definition is_upper :: "char \<Rightarrow> bool" where
  "is_upper c = (c \<in> set upper_letters)"

definition to_lower :: "char \<Rightarrow> char" where
  "to_lower c = (case map_of (zip upper_letters lower_letters) c of None \<Rightarrow> c | Some l \<Rightarrow> l)"

definition to_upper :: "char \<Rightarrow> char" where
  "to_upper c = (case map_of (zip lower_letters upper_letters) c of None \<Rightarrow> c | Some u \<Rightarrow> u)"

text \<open>\<open>s.lower()\<close> and \<open>s.upper()\<close>.\<close>

definition lower :: "string \<Rightarrow> string" where
  "lower s = map to_lower s"

definition upper :: "string \<Rightarrow> string" where
  "upper s = map to_upper s"

text \<open>\<open>s.removeprefix(p)\<close>: \<open>s\<close> without the prefix \<open>p\<close> when it starts with it, else \<open>s\<close>.\<close>

definition removeprefix :: "string \<Rightarrow> string \<Rightarrow> string" where
  "removeprefix p s = (if take (length p) s = p then drop (length p) s else s)"

text \<open>\<open>sep.join(xs)\<close>.\<close>

fun join :: "string \<Rightarrow> string list \<Rightarrow> string" where
  "join sep [] = []"
| "join sep [x] = x"
| "join sep (x # y # ys) = x @ sep @ join sep (y # ys)"

text \<open>
  Modelled from the spec: \<open>casefy.camelcase\<close> and \<open>casefy.snakecase\<close> belong to the
  third-party package \<open>casefy\<close>, which is not part of the sources. The spec describes
  them: "wire field names are lower-camel-case; domain field names are snake-case;
  conversion is a pure, reversible casing transform applied key-by-key". On names made
  of ASCII letters with single underscores between words, which is what every field
  name of the data model and every key of the wire format is: \<open>camelcase\<close> drops each
  underscore and capitalises the letter after it; \<open>snakecase\<close> puts an underscore before
  each capital letter and lowers it, the first letter is only lowered.
\<close>

fun camelcase_tail :: "string \<Rightarrow> string" where
  "camelcase_tail [] = []"
| "camelcase_tail [c] = [c]"
| "camelcase_tail (c # d # cs) =
     (if c = CHR ''_'' then to_upper d # camelcase_tail cs else c # camelcase_tail (d # cs))"

definition camelcase :: "string \<Rightarrow> string" where
  "camelcase s = (case s of [] \<Rightarrow> [] | c # cs \<Rightarrow> camelcase_tail (to_lower c # cs))"

fun snakecase_tail :: "string \<Rightarrow> string" where
  "snakecase_tail [] = []"
| "snakecase_tail (c # cs) =
     (if is_upper c then CHR ''_'' # to_lower c # snakecase_tail cs else c # snakecase_tail cs)"

definition snakecase :: "string \<Rightarrow> string" where
  "snakecase s = (case s of [] \<Rightarrow> [] | c # cs \<Rightarrow> to_lower c # snakecase_tail cs)"

section \<open>\<open>places.py\<close>: the field mask\<close>

text \<open>The names of the fields of \<open>Place\<close>, in the order of the class.\<close>

definition Place_fields :: "string list" where
  "Place_fields =
     [''id'', ''name'',
      ''accessibility_options'', ''address_components'', ''adr_format_address'',
      ''business_status'', ''display_name'', ''formatted_address'', ''google_maps_uri'',
      ''icon_background_color'', ''icon_mask_base_uri'', ''location'', ''photos'',
      ''plus_code'', ''primary_type'', ''primary_type_display_name'',
      ''short_formatted_address'', ''types'', ''utc_offset_minutes'', ''viewport'',
      ''current_opening_hours'', ''current_secondary_opening_hours'',
      ''international_phone_number'', ''national_phone_number'', ''price_level'', ''rating'',
      ''regular_opening_hours'', ''regular_secondary_opening_hours'', ''user_rating_count'',
      ''website_uri'',
      ''allows_dogs'', ''curbside_pickup'', ''delivery'', ''dine_in'', ''good_for_children'',
      ''good_for_groups'', ''good_for_watching_sports'', ''live_music'', ''menu_for_children'',
      ''parking_options'', ''payment_options'', ''outdoor_seating'', ''reservable'',
      ''restroom'', ''reviews'', ''serves_beer'', ''serves_breakfast'', ''serves_brunch'',
      ''serves_cocktails'', ''serves_coffee'', ''serves_desserts'', ''serves_dinner'',
      ''serves_lunch'', ''serves_vegetarian_food'', ''serves_wine'', ''takeout'']"

definition to_api_name :: "string \<Rightarrow> bool \<Rightarrow> string" where
  "to_api_name field add_prefix =
     (let field = camelcase field
      in if add_prefix then ''places.'' @ field else field)"

text \<open>
  \<open>create_field_mask\<close> (the argument \<open>fields\<close> of the source is \<open>requested\<close> here, its
  set is \<open>fs\<close>). The source turns the argument into a set and iterates sets twice, to
  list the invalid names and to build the mask. The order in which Python iterates a set
  of strings changes from run to run (it depends on the hash seed), so it is the parameter
  \<open>iter\<close>: the list of the members of a set in the order of this run.
\<close>

definition create_field_mask ::
  "(string set \<Rightarrow> string list) \<Rightarrow> string list \<Rightarrow> bool \<Rightarrow> error + string" where
  "create_field_mask iter requested add_prefix =
     (let fs = set requested in
      if fs = {} then Inl (ValueError ''At least one field must be provided.'')
      else if ''*'' \<in> fs then Inr ''*''
      else
        let invalid_fields = fs - set Place_fields in
        if invalid_fields \<noteq> {}
        then Inl (ValueError (''Invalid field(s): '' @ join '', '' (iter invalid_fields)))
        else Inr (join '','' (map (\<lambda>field. to_api_name field add_prefix) (iter fs))))"

text \<open>What iterating a set gives: each member once, and nothing else.\<close>

definition enumerates :: "(string set \<Rightarrow> string list) \<Rightarrow> string set \<Rightarrow> bool" where
  "enumerates iter S = (set (iter S) = S \<and> distinct (iter S))"

section \<open>Dictionaries and keyword arguments\<close>

text \<open>\<open>d[k] = v\<close>: the value of an existing key is replaced in place, a new key goes last.\<close>

fun dict_set :: "(string \<times> 'v) list \<Rightarrow> string \<Rightarrow> 'v \<Rightarrow> (string \<times> 'v) list" where
  "dict_set [] k v = [(k, v)]"
| "dict_set ((k', v') # d) k v = (if k' = k then (k, v) # d else (k', v') # dict_set d k v)"

text \<open>The comprehension \<open>{f(key): value for key, value in d.items()}\<close>.\<close>

definition key_map :: "(string \<Rightarrow> string) \<Rightarrow> (string \<times> 'v) list \<Rightarrow> (string \<times> 'v) list" where
  "key_map f d = fold (\<lambda>kv acc. dict_set acc (f (fst kv)) (snd kv)) d []"

text \<open>\<open>x.items()\<close>: only a dictionary has the method.\<close>

definition dict_items :: "json \<Rightarrow> error + pydict" where
  "dict_items x = (case x of JDict d \<Rightarrow> Inr d | _ \<Rightarrow> Inl AttributeError)"

text \<open>
  Equality of two dictionaries as Python decides it: the same keys with the same values,
  in any order.
\<close>

definition dict_eq :: "pydict \<Rightarrow> pydict \<Rightarrow> bool" where
  "dict_eq d1 d2 = list_all (\<lambda>k. map_of d1 k = map_of d2 k) (map fst d1 @ map fst d2)"

text \<open>
  A call \<open>cls(**kw)\<close> of a dataclass: a keyword that is not a field is a \<open>TypeError\<close>, and
  so is a field without default that \<open>kw\<close> lacks; a field with default \<open>None\<close> that
  \<open>kw\<close> lacks is \<open>None\<close>.
\<close>

definition unexpected :: "string list \<Rightarrow> pydict \<Rightarrow> bool" where
  "unexpected names kw = (\<not> set (map fst kw) \<subseteq> set names)"

definition required :: "pydict \<Rightarrow> string \<Rightarrow> error + json" where
  "required kw k = (case map_of kw k of None \<Rightarrow> Inl TypeError | Some v \<Rightarrow> Inr v)"

definition optional :: "pydict \<Rightarrow> string \<Rightarrow> json" where
  "optional kw k = (case map_of kw k of None \<Rightarrow> JNull | Some v \<Rightarrow> v)"

section \<open>\<open>places.py\<close>: the components\<close>

subsection \<open>Enumerations\<close>

datatype PriceLevel = UNSPECIFIED | FREE | INEXPENSIVE | MODERATE | EXPENSIVE | VERY_EXPENSIVE

fun PriceLevel_name :: "PriceLevel \<Rightarrow> string" where
  "PriceLevel_name UNSPECIFIED = ''UNSPECIFIED''"
| "PriceLevel_name FREE = ''FREE''"
| "PriceLevel_name INEXPENSIVE = ''INEXPENSIVE''"
| "PriceLevel_name MODERATE = ''MODERATE''"
| "PriceLevel_name EXPENSIVE = ''EXPENSIVE''"
| "PriceLevel_name VERY_EXPENSIVE = ''VERY_EXPENSIVE''"

text \<open>\<open>PriceLevel(value)\<close>: the member with this value, or \<open>ValueError\<close>.\<close>

definition PriceLevel_of_value :: "string \<Rightarrow> error + PriceLevel" where
  "PriceLevel_of_value v =
     (if v = ''unspecified'' then Inr UNSPECIFIED
      else if v = ''free'' then Inr FREE
      else if v = ''inexpensive'' then Inr INEXPENSIVE
      else if v = ''moderate'' then Inr MODERATE
      else if v = ''expensive'' then Inr EXPENSIVE
      else if v = ''very_expensive'' then Inr VERY_EXPENSIVE
      else Inl (ValueError (v @ '' is not a valid PriceLevel'')))"

text \<open>The methods of a string exist on strings only (\<open>AttributeError\<close> otherwise).\<close>

definition PriceLevel_from_api_format :: "json \<Rightarrow> error + PriceLevel" where
  "PriceLevel_from_api_format v =
     (case v of
        JStr s \<Rightarrow> PriceLevel_of_value (lower (removeprefix ''PRICE_LEVEL_'' s))
      | _ \<Rightarrow> Inl AttributeError)"

definition PriceLevel_to_api_format :: "PriceLevel \<Rightarrow> string" where
  "PriceLevel_to_api_format p = ''PRICE_LEVEL_'' @ PriceLevel_name p"

datatype BusinessStatus = OPERATIONAL | CLOSED_TEMPORARILY | CLOSED_PERMANENTLY

fun BusinessStatus_name :: "BusinessStatus \<Rightarrow> string" where
  "BusinessStatus_name OPERATIONAL = ''OPERATIONAL''"
| "BusinessStatus_name CLOSED_TEMPORARILY = ''CLOSED_TEMPORARILY''"
| "BusinessStatus_name CLOSED_PERMANENTLY = ''CLOSED_PERMANENTLY''"

definition BusinessStatus_of_value :: "string \<Rightarrow> error + BusinessStatus" where
  "BusinessStatus_of_value v =
     (if v = ''operational'' then Inr OPERATIONAL
      else if v = ''closed_temporarily'' then Inr CLOSED_TEMPORARILY
      else if v = ''closed_permanently'' then Inr CLOSED_PERMANENTLY
      else Inl (ValueError (v @ '' is not a valid BusinessStatus'')))"

definition BusinessStatus_from_api_format :: "json \<Rightarrow> error + BusinessStatus" where
  "BusinessStatus_from_api_format v =
     (case v of
        JStr s \<Rightarrow> BusinessStatus_of_value (lower s)
      | _ \<Rightarrow> Inl AttributeError)"

definition BusinessStatus_to_api_format :: "BusinessStatus \<Rightarrow> string" where
  "BusinessStatus_to_api_format b = BusinessStatus_name b"

subsection \<open>Areas\<close>

text \<open>
  The fields of the dataclasses hold whatever value they were given: a dataclass checks
  no annotation. The decorator \<open>serde.serde\<close> belongs to the third-party package
  \<open>pyserde\<close>, whose release the sources do not fix: it makes a dataclass of \<open>PlusCode\<close>
  and \<open>Photo\<close>, which the source decorates with it alone, and from release 0.14 on it
  makes the constructor check its arguments against the annotations and raise
  \<open>SerdeError\<close>, which earlier releases do not. That check is the parameter \<open>check\<close> of
  the constructors of the components below: it is given the name of the class and the
  arguments by field name (a tuple as the list of its components), and says whether the
  constructor accepts them; \<open>\<lambda>c kw. True\<close> is a release without the check. The
  constructions of \<open>OpeningHours\<close> and of \<open>Place\<close> are modelled without it.
  A latitude/longitude pair is a tuple of two values.
\<close>

type_synonym LatLng = "json \<times> json"

datatype CircularArea = CircularArea LatLng json

type_synonym typecheck = "string \<Rightarrow> pydict \<Rightarrow> bool"

text \<open>The constructor with \<open>__post_init__\<close>: the radius is compared with 0 and 50000.\<close>

definition CircularArea_init :: "typecheck \<Rightarrow> LatLng \<Rightarrow> json \<Rightarrow> error + CircularArea" where
  "CircularArea_init check center radius =
     (if \<not> check ''CircularArea''
             [(''center'', JList [fst center, snd center]), (''radius'', radius)]
      then Inl SerdeError
      else
        (case as_num radius of
           None \<Rightarrow> Inl TypeError
         | Some r \<Rightarrow>
             if \<not> (0 < r \<and> r \<le> 50000)
             then Inl (ValueError ''Radius must be between 1 and 50,000 meters.'')
             else Inr (CircularArea center radius)))"

definition CircularArea_from_api_format :: "typecheck \<Rightarrow> json \<Rightarrow> error + CircularArea" where
  "CircularArea_from_api_format check data =
     bind (getitem data ''center'') (\<lambda>c1.
     bind (getitem c1 ''latitude'') (\<lambda>lat.
     bind (getitem data ''center'') (\<lambda>c2.
     bind (getitem c2 ''longitude'') (\<lambda>lng.
     bind (getitem data ''radius'') (\<lambda>radius.
     CircularArea_init check (lat, lng) radius)))))"

fun CircularArea_to_api_format :: "CircularArea \<Rightarrow> pydict" where
  "CircularArea_to_api_format (CircularArea center radius) =
     [(''center'', JDict [(''latitude'', fst center), (''longitude'', snd center)]),
      (''radius'', radius)]"

datatype RectangularArea = RectangularArea LatLng LatLng

definition RectangularArea_init ::
  "typecheck \<Rightarrow> LatLng \<Rightarrow> LatLng \<Rightarrow> error + RectangularArea" where
  "RectangularArea_init check south_west north_east =
     (if \<not> check ''RectangularArea''
             [(''south_west'', JList [fst south_west, snd south_west]),
              (''north_east'', JList [fst north_east, snd north_east])]
      then Inl SerdeError
      else Inr (RectangularArea south_west north_east))"

definition RectangularArea_from_api_format :: "typecheck \<Rightarrow> json \<Rightarrow> error + RectangularArea" where
  "RectangularArea_from_api_format check data =
     bind (getitem data ''low'') (\<lambda>l1.
     bind (getitem l1 ''latitude'') (\<lambda>sw_lat.
     bind (getitem data ''low'') (\<lambda>l2.
     bind (getitem l2 ''longitude'') (\<lambda>sw_lng.
     bind (getitem data ''high'') (\<lambda>h1.
     bind (getitem h1 ''latitude'') (\<lambda>ne_lat.
     bind (getitem data ''high'') (\<lambda>h2.
     bind (getitem h2 ''longitude'') (\<lambda>ne_lng.
     RectangularArea_init check (sw_lat, sw_lng) (ne_lat, ne_lng)))))))))"

fun RectangularArea_to_api_format :: "RectangularArea \<Rightarrow> pydict" where
  "RectangularArea_to_api_format (RectangularArea south_west north_east) =
     [(''low'', JDict [(''latitude'', fst south_west), (''longitude'', snd south_west)]),
      (''high'', JDict [(''latitude'', fst north_east), (''longitude'', snd north_east)])]"

text \<open>\<open>Area\<close> is the union of the two classes; the constructor is what \<open>isinstance\<close> tests.\<close>

datatype Area = Circular CircularArea | Rectangular RectangularArea

subsection \<open>Flat records\<close>

text \<open>
  \<open>LocalizedString\<close>, \<open>AddressComponent\<close>, \<open>AuthorAttribution\<close>, \<open>ParkingOptions\<close> and
  \<open>PaymentOptions\<close> decode with \<open>cls(**{snakecase(key): value ...})\<close> and encode with
  \<open>{camelcase(key): value ...}\<close> over \<open>dataclasses.asdict(self)\<close>, which lists every field
  in the order of the class. Where the release has the check of the arguments, the
  embedding runs it before the constructor of the dataclass looks at the keywords; which
  of the two errors a call with both faults raises is not used by any statement below.
\<close>

datatype LocalizedString = LocalizedString json json

definition LocalizedString_init :: "typecheck \<Rightarrow> pydict \<Rightarrow> error + LocalizedString" where
  "LocalizedString_init check kw =
     (if \<not> check ''LocalizedString'' kw then Inl SerdeError
      else if unexpected [''text'', ''language_code''] kw then Inl TypeError
      else bind (required kw ''text'') (\<lambda>txt.
           bind (required kw ''language_code'') (\<lambda>language_code.
           Inr (LocalizedString txt language_code))))"

fun LocalizedString_asdict :: "LocalizedString \<Rightarrow> pydict" where
  "LocalizedString_asdict (LocalizedString txt language_code) =
     [(''text'', txt), (''language_code'', language_code)]"

definition LocalizedString_from_api_format :: "typecheck \<Rightarrow> json \<Rightarrow> error + LocalizedString" where
  "LocalizedString_from_api_format check data =
     bind (dict_items data) (\<lambda>d. LocalizedString_init check (key_map snakecase d))"

definition LocalizedString_to_api_format :: "LocalizedString \<Rightarrow> pydict" where
  "LocalizedString_to_api_format x = key_map camelcase (LocalizedString_asdict x)"

datatype AddressComponent = AddressComponent json json json json

definition AddressComponent_init :: "typecheck \<Rightarrow> pydict \<Rightarrow> error + AddressComponent" where
  "AddressComponent_init check kw =
     (if \<not> check ''AddressComponent'' kw then Inl SerdeError
      else if unexpected [''long_text'', ''short_text'', ''types'', ''language_code''] kw then Inl TypeError
      else bind (required kw ''long_text'') (\<lambda>long_text.
           bind (required kw ''short_text'') (\<lambda>short_text.
           bind (required kw ''types'') (\<lambda>types.
           bind (required kw ''language_code'') (\<lambda>language_code.
           Inr (AddressComponent long_text short_text types language_code))))))"

fun AddressComponent_asdict :: "AddressComponent \<Rightarrow> pydict" where
  "AddressComponent_asdict (AddressComponent long_text short_text types language_code) =
     [(''long_text'', long_text), (''short_text'', short_text), (''types'', types),
      (''language_code'', language_code)]"

definition AddressComponent_from_api_format :: "typecheck \<Rightarrow> json \<Rightarrow> error + AddressComponent" where
  "AddressComponent_from_api_format check data =
     bind (dict_items data) (\<lambda>d. AddressComponent_init check (key_map snakecase d))"

definition AddressComponent_to_api_format :: "AddressComponent \<Rightarrow> pydict" where
  "AddressComponent_to_api_format x = key_map camelcase (AddressComponent_asdict x)"

datatype PlusCode = PlusCode json json

definition PlusCode_init :: "typecheck \<Rightarrow> json \<Rightarrow> json \<Rightarrow> error + PlusCode" where
  "PlusCode_init check global_code compound_code =
     (if \<not> check ''PlusCode'' [(''global_code'', global_code), (''compound_code'', compound_code)]
      then Inl SerdeError
      else Inr (PlusCode global_code compound_code))"

definition PlusCode_from_api_format :: "typecheck \<Rightarrow> json \<Rightarrow> error + PlusCode" where
  "PlusCode_from_api_format check data =
     bind (getitem data ''globalCode'') (\<lambda>global_code.
     bind (getitem data ''compoundCode'') (\<lambda>compound_code.
     PlusCode_init check global_code compound_code))"

fun PlusCode_to_api_format :: "PlusCode \<Rightarrow> pydict" where
  "PlusCode_to_api_format (PlusCode global_code compound_code) =
     [(''globalCode'', global_code), (''compoundCode'', compound_code)]"

datatype AuthorAttribution = AuthorAttribution json json json

definition AuthorAttribution_init :: "typecheck \<Rightarrow> pydict \<Rightarrow> error + AuthorAttribution" where
  "AuthorAttribution_init check kw =
     (if \<not> check ''AuthorAttribution'' kw then Inl SerdeError
      else if unexpected [''display_name'', ''uri'', ''photo_uri''] kw then Inl TypeError
      else bind (required kw ''display_name'') (\<lambda>display_name.
           Inr (AuthorAttribution display_name (optional kw ''uri'') (optional kw ''photo_uri''))))"

fun AuthorAttribution_asdict :: "AuthorAttribution \<Rightarrow> pydict" where
  "AuthorAttribution_asdict (AuthorAttribution display_name uri photo_uri) =
     [(''display_name'', display_name), (''uri'', uri), (''photo_uri'', photo_uri)]"

definition AuthorAttribution_from_api_format :: "typecheck \<Rightarrow> json \<Rightarrow> error + AuthorAttribution" where
  "AuthorAttribution_from_api_format check data =
     bind (dict_items data) (\<lambda>d. AuthorAttribution_init check (key_map snakecase d))"

definition AuthorAttribution_to_api_format :: "AuthorAttribution \<Rightarrow> pydict" where
  "AuthorAttribution_to_api_format x = key_map camelcase (AuthorAttribution_asdict x)"

datatype ParkingOptions = ParkingOptions json json json json json json json

definition ParkingOptions_fields :: "string list" where
  "ParkingOptions_fields =
     [''free_garage_parking'', ''free_parking_lot'', ''free_street_parking'',
      ''paid_garage_parking'', ''paid_parking_lot'', ''paid_street_parking'', ''valet_parking'']"

definition ParkingOptions_init :: "typecheck \<Rightarrow> pydict \<Rightarrow> error + ParkingOptions" where
  "ParkingOptions_init check kw =
     (if \<not> check ''ParkingOptions'' kw then Inl SerdeError
      else if unexpected ParkingOptions_fields kw then Inl TypeError
      else Inr (ParkingOptions
             (optional kw ''free_garage_parking'') (optional kw ''free_parking_lot'')
             (optional kw ''free_street_parking'') (optional kw ''paid_garage_parking'')
             (optional kw ''paid_parking_lot'') (optional kw ''paid_street_parking'')
             (optional kw ''valet_parking'')))"

fun ParkingOptions_asdict :: "ParkingOptions \<Rightarrow> pydict" where
  "ParkingOptions_asdict (ParkingOptions a b c d e f g) =
     [(''free_garage_parking'', a), (''free_parking_lot'', b), (''free_street_parking'', c),
      (''paid_garage_parking'', d), (''paid_parking_lot'', e), (''paid_street_parking'', f),
      (''valet_parking'', g)]"

definition ParkingOptions_from_api_format :: "typecheck \<Rightarrow> json \<Rightarrow> error + ParkingOptions" where
  "ParkingOptions_from_api_format check data =
     bind (dict_items data) (\<lambda>d. ParkingOptions_init check (key_map snakecase d))"

definition ParkingOptions_to_api_format :: "ParkingOptions \<Rightarrow> pydict" where
  "ParkingOptions_to_api_format x = key_map camelcase (ParkingOptions_asdict x)"

datatype PaymentOptions = PaymentOptions json json json json

definition PaymentOptions_fields :: "string list" where
  "PaymentOptions_fields =
     [''accepts_cash_only'', ''accepts_credit_cards'', ''accepts_debit_cards'', ''accepts_nfc'']"

definition PaymentOptions_init :: "typecheck \<Rightarrow> pydict \<Rightarrow> error + PaymentOptions" where
  "PaymentOptions_init check kw =
     (if \<not> check ''PaymentOptions'' kw then Inl SerdeError
      else if unexpected PaymentOptions_fields kw then Inl TypeError
      else Inr (PaymentOptions
             (optional kw ''accepts_cash_only'') (optional kw ''accepts_credit_cards'')
             (optional kw ''accepts_debit_cards'') (optional kw ''accepts_nfc'')))"

fun PaymentOptions_asdict :: "PaymentOptions \<Rightarrow> pydict" where
  "PaymentOptions_asdict (PaymentOptions a b c d) =
     [(''accepts_cash_only'', a), (''accepts_credit_cards'', b), (''accepts_debit_cards'', c),
      (''accepts_nfc'', d)]"

definition PaymentOptions_from_api_format :: "typecheck \<Rightarrow> json \<Rightarrow> error + PaymentOptions" where
  "PaymentOptions_from_api_format check data =
     bind (dict_items data) (\<lambda>d. PaymentOptions_init check (key_map snakecase d))"

definition PaymentOptions_to_api_format :: "PaymentOptions \<Rightarrow> pydict" where
  "PaymentOptions_to_api_format x = key_map camelcase (PaymentOptions_asdict x)"

text \<open>
  The same equality one level deeper, for a dictionary whose values may be dictionaries
  (the \<open>center\<close>, \<open>low\<close> and \<open>high\<close> of an area).
\<close>

definition value_eq :: "json \<Rightarrow> json \<Rightarrow> bool" where
  "value_eq a b =
     (case a of
        JDict x \<Rightarrow> (case b of JDict y \<Rightarrow> dict_eq x y | _ \<Rightarrow> False)
      | _ \<Rightarrow> a = b)"

definition nested_dict_eq :: "pydict \<Rightarrow> pydict \<Rightarrow> bool" where
  "nested_dict_eq d1 d2 =
     list_all
       (\<lambda>k. case map_of d1 k of
               None \<Rightarrow> map_of d2 k = None
             | Some a \<Rightarrow> (case map_of d2 k of None \<Rightarrow> False | Some b \<Rightarrow> value_eq a b))
       (map fst d1 @ map fst d2)"


subsection \<open>Photos and reviews\<close>

text \<open>A list comprehension over a function that may raise: the first exception ends it.\<close>

fun map_err :: "('a \<Rightarrow> error + 'b) \<Rightarrow> 'a list \<Rightarrow> error + 'b list" where
  "map_err f [] = Inr []"
| "map_err f (x # xs) = bind (f x) (\<lambda>y. bind (map_err f xs) (\<lambda>ys. Inr (y # ys)))"

text \<open>The fields of a photo: \<open>name\<close>, \<open>height\<close>, \<open>width\<close>, \<open>authot_attributions\<close>.\<close>

datatype Photo = Photo json json json "AuthorAttribution list"

text \<open>
  The authors of a photo are instances the decoder has built; the check looks at the
  other three arguments.
\<close>

definition Photo_init ::
  "typecheck \<Rightarrow> json \<Rightarrow> json \<Rightarrow> json \<Rightarrow> AuthorAttribution list \<Rightarrow> error + Photo" where
  "Photo_init check name height width authors =
     (if \<not> check ''Photo'' [(''name'', name), (''height'', height), (''width'', width)]
      then Inl SerdeError
      else Inr (Photo name height width authors))"

definition Photo_from_api_format :: "typecheck \<Rightarrow> json \<Rightarrow> error + Photo" where
  "Photo_from_api_format check data =
     bind (getitem data ''name'') (\<lambda>name.
     bind (getitem data ''widthPx'') (\<lambda>width.
     bind (getitem data ''heightPx'') (\<lambda>height.
     bind (getitem data ''authorAttributions'') (\<lambda>aj.
     bind (iter_json aj) (\<lambda>wire_authors.
     bind (map_err (AuthorAttribution_from_api_format check) wire_authors) (\<lambda>authors.
     Photo_init check name height width authors))))))"

text \<open>
  The fields of a review: \<open>name\<close>, \<open>relative_publish_time_description\<close>, \<open>rating\<close>,
  \<open>text\<close>, \<open>original_text\<close>, \<open>author_attribution\<close>, \<open>publish_time\<close>. The type \<open>'t\<close>
  is \<open>datetime.datetime\<close>; \<open>dateutil.parser.parse\<close> and \<open>datetime.isoformat\<close> belong
  to libraries outside the sources and are the parameters \<open>parse\<close> and \<open>isoformat\<close>.
\<close>

datatype 't Review =
  Review json json json LocalizedString LocalizedString AuthorAttribution 't

text \<open>\<open>d[k]\<close> on a dictionary the code built itself.\<close>

definition lookup :: "(string \<times> 'v) list \<Rightarrow> string \<Rightarrow> error + 'v" where
  "lookup d k = (case map_of d k of None \<Rightarrow> Inl (KeyError k) | Some v \<Rightarrow> Inr v)"

definition Review_fields :: "string list" where
  "Review_fields =
     [''name'', ''relative_publish_time_description'', ''rating'', ''text'', ''original_text'',
      ''author_attribution'', ''publish_time'']"

text \<open>
  \<open>Review.from_api_format\<close>: the four assignments replace the values of keys that
  exist (a missing key is a \<open>KeyError\<close>), so the keywords of \<open>cls(**data)\<close> are the
  keys of the comprehension. Four of the arguments are values the decoder has built; the
  check looks at the others.
\<close>

definition Review_from_api_format ::
  "typecheck \<Rightarrow> (json \<Rightarrow> error + 't) \<Rightarrow> json \<Rightarrow> error + 't Review" where
  "Review_from_api_format check parse wire =
     bind (dict_items wire) (\<lambda>d.
     let data = key_map snakecase d in
     bind (lookup data ''text'') (\<lambda>t.
     bind (LocalizedString_from_api_format check t) (\<lambda>txt.
     bind (lookup data ''original_text'') (\<lambda>ot.
     bind (LocalizedString_from_api_format check ot) (\<lambda>original_text.
     bind (lookup data ''author_attribution'') (\<lambda>aa.
     bind (AuthorAttribution_from_api_format check aa) (\<lambda>author_attribution.
     bind (lookup data ''publish_time'') (\<lambda>pt.
     bind (parse pt) (\<lambda>publish_time.
     if \<not> check ''Review''
            (filter (\<lambda>kv. fst kv \<notin> set [''text'', ''original_text'', ''author_attribution'',
                                          ''publish_time'']) data)
       then Inl SerdeError
     else if unexpected Review_fields data then Inl TypeError
     else
       bind (required data ''name'') (\<lambda>name.
       bind (required data ''relative_publish_time_description'') (\<lambda>description.
       bind (required data ''rating'') (\<lambda>rating.
       Inr (Review name description rating txt original_text author_attribution
              publish_time)))))))))))))"

text \<open>
  The values \<open>Review.to_api_format\<close> handles: plain values (of JSON shape), a
  \<open>datetime\<close>, and instances of the two dataclasses a review holds.
\<close>

datatype 't pyobj =
    Plain json
  | Instant 't
  | LocalizedStringObj LocalizedString
  | AuthorAttributionObj AuthorAttribution

text \<open>
  \<open>dataclasses.asdict\<close> recurses into the fields: a field that is itself a dataclass
  instance becomes the dictionary of its fields; any other value is copied.
\<close>

fun asdict_inner :: "'t pyobj \<Rightarrow> 't pyobj" where
  "asdict_inner (LocalizedStringObj x) = Plain (JDict (LocalizedString_asdict x))"
| "asdict_inner (AuthorAttributionObj x) = Plain (JDict (AuthorAttribution_asdict x))"
| "asdict_inner (Plain v) = Plain v"
| "asdict_inner (Instant t) = Instant t"

fun Review_asdict :: "'t Review \<Rightarrow> (string \<times> 't pyobj) list" where
  "Review_asdict (Review name description rating txt original_text author_attribution publish_time) =
     [(''name'', asdict_inner (Plain name)),
      (''relative_publish_time_description'', asdict_inner (Plain description)),
      (''rating'', asdict_inner (Plain rating)),
      (''text'', asdict_inner (LocalizedStringObj txt)),
      (''original_text'', asdict_inner (LocalizedStringObj original_text)),
      (''author_attribution'', asdict_inner (AuthorAttributionObj author_attribution)),
      (''publish_time'', asdict_inner (Instant publish_time))]"

text \<open>
  The method calls \<open>v.to_api_format()\<close> and \<open>v.isoformat()\<close>: a value without the
  method raises \<open>AttributeError\<close>.
\<close>

fun call_to_api_format :: "'t pyobj \<Rightarrow> error + 't pyobj" where
  "call_to_api_format (LocalizedStringObj x) = Inr (Plain (JDict (LocalizedString_to_api_format x)))"
| "call_to_api_format (AuthorAttributionObj x) = Inr (Plain (JDict (AuthorAttribution_to_api_format x)))"
| "call_to_api_format (Plain v) = Inl AttributeError"
| "call_to_api_format (Instant t) = Inl AttributeError"

fun call_isoformat :: "('t \<Rightarrow> string) \<Rightarrow> 't pyobj \<Rightarrow> error + 't pyobj" where
  "call_isoformat isoformat (Instant t) = Inr (Plain (JStr (isoformat t)))"
| "call_isoformat isoformat v = Inl AttributeError"

definition Review_to_api_format ::
  "('t \<Rightarrow> string) \<Rightarrow> 't Review \<Rightarrow> error + (string \<times> 't pyobj) list" where
  "Review_to_api_format isoformat self =
     (let data = Review_asdict self in
      bind (lookup data ''text'') (\<lambda>v1.
      bind (call_to_api_format v1) (\<lambda>r1.
      let data = dict_set data ''text'' r1 in
      bind (lookup data ''original_text'') (\<lambda>v2.
      bind (call_to_api_format v2) (\<lambda>r2.
      let data = dict_set data ''original_text'' r2 in
      bind (lookup data ''author_attribution'') (\<lambda>v3.
      bind (call_to_api_format v3) (\<lambda>r3.
      let data = dict_set data ''author_attribution'' r3 in
      bind (lookup data ''publish_time'') (\<lambda>v4.
      bind (call_isoformat isoformat v4) (\<lambda>r4.
      let data = dict_set data ''publish_time'' r4 in
      Inr (key_map camelcase data))))))))))"

section \<open>\<open>places.py\<close>: the place\<close>

text \<open>What a field of a place holds after decoding.\<close>

datatype 't field_value =
    Raw json
  | AddressComponents "AddressComponent list"
  | Status BusinessStatus
  | Localized LocalizedString
  | Location LatLng
  | Photos "Photo list"
  | Plus PlusCode
  | Viewport RectangularArea
  | Hours OpeningHours
  | Price PriceLevel
  | Parking ParkingOptions
  | Payment PaymentOptions
  | Reviews "'t Review list"

text \<open>\<open>_from_api_format\<close>: the key in snake case, and the value decoded by its key.\<close>

definition from_api_format' ::
  "typecheck \<Rightarrow> (json \<Rightarrow> error + 't) \<Rightarrow> string \<Rightarrow> json
     \<Rightarrow> error + (string \<times> 't field_value)" where
  "from_api_format' check parse wire_key v =
     (let key = snakecase wire_key in
      if key = ''accessibility_options'' then
        bind (dict_items v) (\<lambda>d. Inr (key, Raw (JDict (key_map snakecase d))))
      else if key = ''address_components'' then
        bind (iter_json v) (\<lambda>xs.
        bind (map_err (AddressComponent_from_api_format check) xs) (\<lambda>r. Inr (key, AddressComponents r)))
      else if key = ''business_status'' then
        bind (BusinessStatus_from_api_format v) (\<lambda>r. Inr (key, Status r))
      else if key = ''display_name'' then
        bind (LocalizedString_from_api_format check v) (\<lambda>r. Inr (key, Localized r))
      else if key = ''location'' then
        bind (getitem v ''latitude'') (\<lambda>lat.
        bind (getitem v ''longitude'') (\<lambda>lng. Inr (key, Location (lat, lng))))
      else if key = ''photos'' then
        bind (iter_json v) (\<lambda>xs.
        bind (map_err (Photo_from_api_format check) xs) (\<lambda>r. Inr (key, Photos r)))
      else if key = ''plus_code'' then
        bind (PlusCode_from_api_format check v) (\<lambda>r. Inr (key, Plus r))
      else if key = ''primary_type_display_name'' then
        bind (LocalizedString_from_api_format check v) (\<lambda>r. Inr (key, Localized r))
      else if key = ''viewport'' then
        bind (RectangularArea_from_api_format check v) (\<lambda>r. Inr (key, Viewport r))
      else if key = ''current_opening_hours'' \<or> key = ''current_secondary_opening_hours''
              \<or> key = ''regular_opening_hours'' \<or> key = ''regular_secondary_opening_hours'' then
        bind (OpeningHours_from_api_format v) (\<lambda>r. Inr (key, Hours r))
      else if key = ''price_level'' then
        bind (PriceLevel_from_api_format v) (\<lambda>r. Inr (key, Price r))
      else if key = ''parking_options'' then
        bind (ParkingOptions_from_api_format check v) (\<lambda>r. Inr (key, Parking r))
      else if key = ''payment_options'' then
        bind (PaymentOptions_from_api_format check v) (\<lambda>r. Inr (key, Payment r))
      else if key = ''reviews'' then
        bind (iter_json v) (\<lambda>xs.
        bind (map_err (Review_from_api_format check parse) xs) (\<lambda>r. Inr (key, Reviews r)))
      else Inr (key, Raw v))"

text \<open>
  A place is the tuple of the values of its fields, in the order of \<open>Place_fields\<close>.
  Every field has the default \<open>None\<close>: \<open>cls(**values)\<close> gives a field the value of its
  keyword, or \<open>None\<close> when \<open>values\<close> has no such keyword.
\<close>

datatype 't Place = Place "'t field_value list"

definition Place_init :: "(string \<times> 't field_value) list \<Rightarrow> 't Place" where
  "Place_init vals =
     Place (map (\<lambda>f. case map_of vals f of None \<Rightarrow> Raw JNull | Some v \<Rightarrow> v) Place_fields)"

text \<open>The loop of \<open>Place.from_api_format\<close> over the entries of the wire object.\<close>

fun Place_loop ::
  "typecheck \<Rightarrow> (json \<Rightarrow> error + 't) \<Rightarrow> pydict \<Rightarrow> (string \<times> 't field_value) list
     \<Rightarrow> error + (string \<times> 't field_value) list" where
  "Place_loop check parse [] vals = Inr vals"
| "Place_loop check parse (entry # rest) vals =
     bind (from_api_format' check parse (fst entry) (snd entry)) (\<lambda>kv.
     Place_loop check parse rest
       (if fst kv \<in> set Place_fields then dict_set vals (fst kv) (snd kv) else vals))"

definition Place_from_api_format ::
  "typecheck \<Rightarrow> (json \<Rightarrow> error + 't) \<Rightarrow> json \<Rightarrow> error + 't Place" where
  "Place_from_api_format check parse data =
     bind (dict_items data) (\<lambda>entries.
     bind (Place_loop check parse entries []) (\<lambda>vals.
     Inr (Place_init vals)))"

section \<open>\<open>_client.py\<close>: the client\<close>

text \<open>
  A request as the client hands it to the HTTP session: the method, the URL, the headers,
  the query parameters (\<open>params=\<close>) and the JSON body (\<open>json=\<close>). The session is the
  parameter \<open>send\<close>, which answers a request with a status and a decoded JSON body. Each
  operation returns its outcome together with the list of the requests it has sent.
  An operation that builds a field mask has the order of iteration of sets, \<open>iter\<close>,
  as a parameter too, and one that decodes places has \<open>check\<close> and \<open>parse\<close>.
\<close>

record request =
  verb :: string
  url :: string
  headers :: "(string \<times> string) list"
  params :: "pydict option"
  json_body :: "pydict option"

text \<open>What an operation raises: a Python exception, or the error of the service.\<close>

datatype failure = Raised error | Failed APIError

text \<open>\<open>raise APIError.from_api_response(response.status, data)\<close>.\<close>

definition api_failure :: "int \<Rightarrow> json \<Rightarrow> failure" where
  "api_failure code data =
     (case data of
        JDict d \<Rightarrow> Failed (APIError_from_api_response code d)
      | _ \<Rightarrow> Raised AttributeError)"

subsection \<open>\<open>search_places_by_text\<close>\<close>

text \<open>
  The arguments of \<open>search_places_by_text\<close> (\<open>fields\<close> is \<open>field_names\<close> here). The
  minimum rating is a float, modelled by a real number.
\<close>

record text_search_args =
  query :: string
  field_names :: "string list"
  included_type :: "string option"
  language_code :: string
  bias_area :: "Area option"
  restrict_area :: "Area option"
  page_size :: int
  next_page_token :: "string option"
  min_rating :: "real option"
  open_now :: bool
  price_levels :: "PriceLevel list option"
  rank_by :: string

text \<open>The five checks at the head of the function, in their order.\<close>

definition text_search_checks :: "text_search_args \<Rightarrow> error + unit" where
  "text_search_checks a =
     (if length (query a) = 0 then Inl (ValueError ''The query must not be empty.'')
      else if bias_area a \<noteq> None \<and> restrict_area a \<noteq> None
        then Inl (ValueError ''You can't specify both a bias area and a restrict area.'')
      else if \<not> (0 < page_size a \<and> page_size a \<le> 20)
        then Inl (ValueError ''The maximum number of results must be between in the range [1, 20].'')
      else if (case min_rating a of None \<Rightarrow> False | Some r \<Rightarrow> \<not> (0 \<le> r \<and> r \<le> 5))
        then Inl (ValueError ''The minimum rating must be between 0 and 5.'')
      else if FREE \<in> set (case price_levels a of None \<Rightarrow> [] | Some ls \<Rightarrow> ls)
        then Inl (ValueError ''The FREE price level cannot be used in the price_levels argument.'')
      else Inr ())"

text \<open>The body of the request, built after the headers; the restrict area is checked here.\<close>

definition text_search_body :: "text_search_args \<Rightarrow> error + pydict" where
  "text_search_body a =
     (let body = [(''textQuery'', JStr (query a)),
                  (''languageCode'', JStr (language_code a)),
                  (''pageSize'', JInt (page_size a)),
                  (''rankPreference'', JStr (upper (rank_by a))),
                  (''openNow'', JBool (open_now a))];
          body = (case included_type a of
                    None \<Rightarrow> body
                  | Some t \<Rightarrow> dict_set (dict_set body ''includedType'' (JStr t))
                               ''strictTypeFiltering'' (JBool True));
          body = (case next_page_token a of
                    None \<Rightarrow> body
                  | Some t \<Rightarrow> dict_set body ''pageToken'' (JStr t));
          body = (case bias_area a of
                    None \<Rightarrow> body
                  | Some (Circular c) \<Rightarrow>
                      dict_set body ''locationBias''
                        (JDict [(''circle'', JDict (CircularArea_to_api_format c))])
                  | Some (Rectangular r) \<Rightarrow>
                      dict_set body ''locationBias''
                        (JDict [(''rectangle'', JDict (RectangularArea_to_api_format r))]))
      in case restrict_area a of
           Some (Circular c) \<Rightarrow> Inl (ValueError ''The restrict area must be a rectangular area.'')
         | restrict \<Rightarrow>
             (let body = (case restrict of
                            Some (Rectangular r) \<Rightarrow>
                              dict_set body ''locationRestriction''
                                (JDict [(''rectangle'', JDict (RectangularArea_to_api_format r))])
                          | _ \<Rightarrow> body);
                  body = (case min_rating a of
                            None \<Rightarrow> body
                          | Some r \<Rightarrow> dict_set body ''minRating'' (JFloat r));
                  body = (case price_levels a of
                            None \<Rightarrow> body
                          | Some ls \<Rightarrow>
                              if ls = [] then body
                              else dict_set body ''priceLevels''
                                     (JList (map (\<lambda>level. JStr (PriceLevel_to_api_format level)) ls)))
              in Inr body))"

definition text_search_request ::
  "(string set \<Rightarrow> string list) \<Rightarrow> string \<Rightarrow> text_search_args \<Rightarrow> error + request" where
  "text_search_request iter api_key a =
     bind (text_search_checks a) (\<lambda>_.
     bind (create_field_mask iter (field_names a) True) (\<lambda>mask.
     bind (text_search_body a) (\<lambda>body.
     Inr \<lparr> verb = ''POST'',
           url = ''https://places.googleapis.com/v1/places:searchText'',
           headers = [(''X-Goog-Api-Key'', api_key), (''X-Goog-FieldMask'', mask)],
           params = None,
           json_body = Some body \<rparr>)))"

text \<open>The answer with status 200: the token of the next page and the places.\<close>

definition text_search_result ::
  "typecheck \<Rightarrow> (json \<Rightarrow> error + 't) \<Rightarrow> json \<Rightarrow> error + ('t Place list \<times> json)" where
  "text_search_result check parse data =
     bind (get_method data ''nextPageToken'') (\<lambda>token.
     bind (getitem data ''places'') (\<lambda>pj.
     bind (iter_json pj) (\<lambda>wire_places.
     bind (map_err (Place_from_api_format check parse) wire_places) (\<lambda>results.
     Inr (results, token)))))"

definition search_places_by_text ::
  "(string set \<Rightarrow> string list) \<Rightarrow> (request \<Rightarrow> int \<times> json) \<Rightarrow> typecheck
     \<Rightarrow> (json \<Rightarrow> error + 't) \<Rightarrow> string \<Rightarrow> text_search_args
     \<Rightarrow> (failure + ('t Place list \<times> json)) \<times> request list" where
  "search_places_by_text iter send check parse api_key a =
     (case text_search_request iter api_key a of
        Inl e \<Rightarrow> (Inl (Raised e), [])
      | Inr req \<Rightarrow>
          (let response = send req in
           if fst response \<noteq> 200 then (Inl (api_failure (fst response) (snd response)), [req])
           else (case text_search_result check parse (snd response) of
                   Inl e \<Rightarrow> (Inl (Raised e), [req])
                 | Inr r \<Rightarrow> (Inr r, [req]))))"

subsection \<open>\<open>get_photo_uri\<close>\<close>

text \<open>\<open>s.strip("/")\<close>: \<open>s\<close> without the slashes at its two ends.\<close>

definition strip_slash :: "string \<Rightarrow> string" where
  "strip_slash s = rev (dropWhile (\<lambda>c. c = CHR ''/'') (rev (dropWhile (\<lambda>c. c = CHR ''/'') s)))"

definition photo_request :: "string \<Rightarrow> Photo \<Rightarrow> int option \<Rightarrow> int option \<Rightarrow> error + request" where
  "photo_request api_key photo max_width max_height =
     (if max_width = None \<and> max_height = None
        then Inl (ValueError ''At least one of max_width and max_height must be provided.'')
      else if (case max_width of None \<Rightarrow> False | Some w \<Rightarrow> \<not> (1 \<le> w \<and> w \<le> 4800))
        then Inl (ValueError ''The maximum width must be between 1 and 4800.'')
      else if (case max_height of None \<Rightarrow> False | Some h \<Rightarrow> \<not> (1 \<le> h \<and> h \<le> 4800))
        then Inl (ValueError ''The maximum height must be between 1 and 4800.'')
      else
        (case photo of Photo photo_name height width authors \<Rightarrow>
          (case photo_name of
             JStr s \<Rightarrow>
               (let name = strip_slash s;
                    parameters = [(''skipHttpRedirect'', JStr ''true'')];
                    parameters =
                      (case max_width of
                         Some w \<Rightarrow> dict_set parameters ''maxWidthPx'' (JInt w)
                       | None \<Rightarrow>
                          (case max_height of
                             Some h \<Rightarrow> dict_set parameters ''maxHeightPx'' (JInt h)
                           | None \<Rightarrow> parameters))
                in Inr \<lparr> verb = ''GET'',
                         url = ''https://places.googleapis.com/v1/'' @ name @ ''/media'',
                         headers = [(''X-Goog-Api-Key'', api_key)],
                         params = Some parameters,
                         json_body = None \<rparr>)
           | _ \<Rightarrow> Inl AttributeError)))"

definition get_photo_uri ::
  "(request \<Rightarrow> int \<times> json) \<Rightarrow> string \<Rightarrow> Photo \<Rightarrow> int option \<Rightarrow> int option
     \<Rightarrow> (failure + json) \<times> request list" where
  "get_photo_uri send api_key photo max_width max_height =
     (case photo_request api_key photo max_width max_height of
        Inl e \<Rightarrow> (Inl (Raised e), [])
      | Inr req \<Rightarrow>
          (let response = send req in
           if fst response \<noteq> 200 then (Inl (api_failure (fst response) (snd response)), [req])
           else (case getitem (snd response) ''photoUri'' of
                   Inl e \<Rightarrow> (Inl (Raised e), [req])
                 | Inr uri \<Rightarrow> (Inr uri, [req]))))"

section \<open>Properties of the opening hours\<close>


lemma bind_Inr [simp]: "bind (Inr x) f = f x"
  by (simp add: bind_def)

lemma bind_Inl [simp]: "bind (Inl e) f = Inl e"
  by (simp add: bind_def)

lemma bind_eq_Inr: "bind m f = Inr y \<longleftrightarrow> (\<exists>x. m = Inr x \<and> f x = Inr y)"
  by (cases m) simp_all


lemma append_at_in_range:
  "0 \<le> i \<Longrightarrow> i < int (length ps) \<Longrightarrow> append_at ps i x = Inr (ps[nat i := ps ! nat i @ [x]])"
  by (simp add: append_at_def)

lemma week_upto: "[0..6] = [0, 1, 2, 3, 4, 5, (6::int)]"
  by (simp add: upto_rec1)

lemma append_each_whole_week:
  "append_each (\<lambda>i. Inr (None, None)) [0..6] (replicate 7 []) = Inr (replicate 7 [(None, None)])"
  by (simp add: week_upto append_at_def numeral_eq_Suc)

lemma rotate_week_replicate: "rotate_week (replicate 7 x) = Inr (replicate 7 x)"
  by (simp add: rotate_week_def numeral_eq_Suc)

lemma period_step_no_close_single:
  assumes "no_close p" and "getitem p ''open'' = Inr s"
  shows "period_step (Suc 0) (replicate 7 []) p = Inr (True, replicate 7 [(None, None)])"
  using assms
  by (cases p) (simp_all add: no_close_def period_step_def get_method_def append_each_whole_week)

lemma period_step_no_close_many:
  assumes "no_close p" and "1 < n"
  shows "isl (period_step n ps p)"
  using assms
  by (cases p; cases "getitem p ''open''") (simp_all add: no_close_def period_step_def get_method_def)

lemma period_step_no_break:
  assumes "1 < n" and "period_step n ps p = Inr r"
  shows "\<not> fst r"
  using assms
  by (auto simp: period_step_def bind_eq_Inr split: if_splits)

lemma periods_loop_no_close_many:
  assumes "no_close p" and "p \<in> set items" and "1 < n"
  shows "isl (periods_loop n items ps)"
  using assms(2)
proof (induction items arbitrary: ps)
  case Nil
  then show ?case by simp
next
  case (Cons q rest)
  show ?case
  proof (cases "period_step n ps q")
    case (Inl e)
    then show ?thesis by simp
  next
    case (Inr r)
    have nb: "\<not> fst r" using period_step_no_break [OF assms(3) Inr] .
    have "q \<noteq> p" using period_step_no_close_many [OF assms(1) assms(3), of ps] Inr by auto
    with Cons.prems have "p \<in> set rest" by simp
    from Cons.IH [OF this] show ?thesis using Inr nb by simp
  qed
qed

lemma period_step_guard:
  assumes "no_close p" and "getitem p ''open'' = Inr s" and "1 < n"
  shows "period_step n ps p
           = Inl (RuntimeError ''If you see this message, please report it as a bug.'')"
  using assms
  by (cases p) (simp_all add: no_close_def period_step_def get_method_def getitem_def)

lemma periods_loop_append:
  assumes "1 < n"
  shows "periods_loop n (xs @ ys) ps = bind (periods_loop n xs ps) (periods_loop n ys)"
proof (induction xs arbitrary: ps)
  case Nil
  show ?case by simp
next
  case (Cons x xs)
  show ?case
  proof (cases "period_step n ps x")
    case (Inl e)
    then show ?thesis by simp
  next
    case (Inr r)
    have "\<not> fst r" using period_step_no_break [OF assms Inr] .
    then show ?thesis using Inr by (simp add: Cons.IH)
  qed
qed

text \<open>
  C1 (as amended). When the list of periods contains a period without closing time: if
  it is the only period and has an \<open>open\<close> key, the result has the single pair
  \<open>(None, None)\<close> in each of the 7 buckets; if the list has more than one period, the
  decoder raises and returns no value, and what it raises is the \<open>RuntimeError\<close> of the
  guard when the period without closing time has an \<open>open\<close> key and every period
  before it is processed without raising.
\<close>

theorem OpeningHours_no_close:
  assumes "getitem data ''weekdayDescriptions'' = Inr wd"
      and "getitem data ''periods'' = Inr (JList items)"
      and "p \<in> set items" and "no_close p"
  shows "(items = [p] \<and> (\<exists>s. getitem p ''open'' = Inr s) \<longrightarrow>
            OpeningHours_from_api_format data
              = Inr \<lparr> periods = replicate 7 [(None, None)], weekday_descriptions = wd \<rparr>)
       \<and> (1 < length items \<longrightarrow> isl (OpeningHours_from_api_format data))
       \<and> (1 < length items \<and> items = before @ p # after \<and> (\<exists>s. getitem p ''open'' = Inr s)
            \<and> (\<exists>ps. periods_loop (length items) before (replicate 7 []) = Inr ps) \<longrightarrow>
            OpeningHours_from_api_format data
              = Inl (RuntimeError ''If you see this message, please report it as a bug.''))"
proof (intro conjI impI)
  assume "items = [p] \<and> (\<exists>s. getitem p ''open'' = Inr s)"
  then obtain s where i: "items = [p]" and s: "getitem p ''open'' = Inr s" by blast
  show "OpeningHours_from_api_format data
          = Inr \<lparr> periods = replicate 7 [(None, None)], weekday_descriptions = wd \<rparr>"
    using assms(1,2) period_step_no_close_single [OF assms(4) s]
    by (simp add: OpeningHours_from_api_format_def iter_json_def i rotate_week_def numeral_eq_Suc)
next
  assume "1 < length items"
  from periods_loop_no_close_many [OF assms(4) assms(3) this, of "replicate 7 []"]
  obtain e where "periods_loop (length items) items (replicate 7 []) = Inl e"
    by (cases "periods_loop (length items) items (replicate 7 [])") auto
  then show "isl (OpeningHours_from_api_format data)"
    using assms(1,2) by (simp add: OpeningHours_from_api_format_def iter_json_def)
next
  assume h: "1 < length items \<and> items = before @ p # after \<and> (\<exists>s. getitem p ''open'' = Inr s)
            \<and> (\<exists>ps. periods_loop (length items) before (replicate 7 []) = Inr ps)"
  then obtain s ps where n: "1 < length items" and i: "items = before @ p # after"
      and s: "getitem p ''open'' = Inr s"
      and b: "periods_loop (length items) before (replicate 7 []) = Inr ps"
    by blast
  have g: "period_step (length items) ps p
             = Inl (RuntimeError ''If you see this message, please report it as a bug.'')"
    using assms(4) s n by (rule period_step_guard)
  have "periods_loop (length items) (before @ p # after) (replicate 7 [])
          = bind (periods_loop (length items) before (replicate 7 []))
              (periods_loop (length items) (p # after))"
    using n by (rule periods_loop_append)
  also have "\<dots> = Inl (RuntimeError ''If you see this message, please report it as a bug.'')"
    by (simp add: b g)
  finally have "periods_loop (length items) items (replicate 7 [])
          = Inl (RuntimeError ''If you see this message, please report it as a bug.'')"
    unfolding i [symmetric] .
  then show "OpeningHours_from_api_format data
              = Inl (RuntimeError ''If you see this message, please report it as a bug.'')"
    using assms(1,2) by (simp add: OpeningHours_from_api_format_def iter_json_def)
qed

lemma time_of_point_valid:
  assumes "getitem pt ''hour'' = Inr (JInt h)" and "getitem pt ''minute'' = Inr (JInt m)"
      and "0 \<le> h" "h \<le> 23" "0 \<le> m" "m \<le> 59"
  shows "time_of_point pt = Inr (Time h m)"
  using assms by (simp add: time_of_point_def datetime_time_def as_int_def)

lemma week_day_cases:
  assumes "0 \<le> d" and "d \<le> (6::int)"
  shows "d = 0 \<or> d = 1 \<or> d = 2 \<or> d = 3 \<or> d = 4 \<or> d = 5 \<or> d = 6"
  using assms by arith

lemma rotate_week_one:
  assumes "0 \<le> d" and "d \<le> (6::int)"
  shows "rotate_week ((replicate 7 [])[nat d := [x]])
           = Inr ((replicate 7 [])[nat ((d + 6) mod 7) := [x]])"
  using week_day_cases [OF assms]
  by (elim disjE) (simp_all add: rotate_week_def numeral_eq_Suc)

lemma rotate_week_two:
  assumes "0 \<le> d" and "d \<le> (5::int)"
  shows "rotate_week ((replicate 7 [])[nat d := [x], nat (d + 1) := [y]])
           = Inr ((replicate 7 [])[nat ((d + 6) mod 7) := [x], nat ((d + 1 + 6) mod 7) := [y]])"
proof -
  have "d = 0 \<or> d = 1 \<or> d = 2 \<or> d = 3 \<or> d = 4 \<or> d = 5" using assms by arith
  then show ?thesis
    by (elim disjE) (simp_all add: rotate_week_def numeral_eq_Suc)
qed

lemma append_at_week:
  assumes "0 \<le> d" and "d \<le> (6::int)" and "length ps = 7"
  shows "append_at ps d x = Inr (ps[nat d := ps ! nat d @ [x]])"
  using assms by (simp add: append_at_def)

lemma place_period_same_day:
  assumes "getitem st ''day'' = Inr (JInt d)" and "getitem en ''day'' = Inr (JInt d)"
      and "time_of_point st = Inr s" and "time_of_point en = Inr e"
      and "0 \<le> d" and "d \<le> 6"
  shows "place_period (replicate 7 []) st en = Inr ((replicate 7 [])[nat d := [(Some s, Some e)]])"
  using assms by (simp add: place_period_def as_int_def as_num_def append_at_week)

lemma place_period_overnight:
  assumes "getitem st ''day'' = Inr (JInt d)" and "getitem en ''day'' = Inr (JInt (d + 1))"
      and "time_of_point st = Inr s" and "time_of_point en = Inr e"
      and "0 \<le> d" and "d \<le> 5"
  shows "place_period (replicate 7 []) st en
           = Inr ((replicate 7 [])[nat d := [(Some s, None)], nat (d + 1) := [(None, Some e)]])"
proof -
  have u: "[d..d + 1] = [d, d + 1]" by (simp add: upto_rec1)
  have n: "nat (d + 1) \<noteq> nat d" using assms(5) by simp
  show ?thesis
    using assms n by (simp add: place_period_def as_int_def as_num_def u append_at_week)
qed

text \<open>
  C2. For a single period with valid times and Sunday-based days in \<open>0..6\<close>: a same-day
  period of day \<open>d\<close> is the pair \<open>(open, close)\<close> in the Monday-based bucket
  \<open>(d + 6) mod 7\<close>, all other buckets empty; a period closing on the next day gives
  \<open>(open, None)\<close> in the bucket of the opening day and \<open>(None, close)\<close> in the bucket
  of the closing day.
\<close>

theorem OpeningHours_single_period:
  assumes "getitem data ''weekdayDescriptions'' = Inr wd"
      and "getitem data ''periods'' = Inr (JList [period])"
      and "getitem period ''open'' = Inr st" and "getitem period ''close'' = Inr en"
      and "getitem st ''day'' = Inr (JInt d)"
      and "getitem st ''hour'' = Inr (JInt h)" and "getitem st ''minute'' = Inr (JInt m)"
      and "getitem en ''day'' = Inr (JInt d')"
      and "getitem en ''hour'' = Inr (JInt h')" and "getitem en ''minute'' = Inr (JInt m')"
      and "0 \<le> h" "h \<le> 23" "0 \<le> m" "m \<le> 59" "0 \<le> h'" "h' \<le> 23" "0 \<le> m'" "m' \<le> 59"
      and "0 \<le> d" and "d' \<le> 6"
  shows "(d' = d \<longrightarrow>
            OpeningHours_from_api_format data
              = Inr \<lparr> periods = (replicate 7 [])
                         [nat ((d + 6) mod 7) := [(Some (Time h m), Some (Time h' m'))]],
                      weekday_descriptions = wd \<rparr>)
       \<and> (d' = d + 1 \<longrightarrow>
            OpeningHours_from_api_format data
              = Inr \<lparr> periods = (replicate 7 [])
                         [nat ((d + 6) mod 7) := [(Some (Time h m), None)],
                          nat ((d' + 6) mod 7) := [(None, Some (Time h' m'))]],
                      weekday_descriptions = wd \<rparr>)"
proof -
  have s: "time_of_point st = Inr (Time h m)"
    using assms by (intro time_of_point_valid) simp_all
  have e: "time_of_point en = Inr (Time h' m')"
    using assms by (intro time_of_point_valid) simp_all
  have en: "en \<noteq> JNull" using assms(8) by (auto simp: getitem_def)
  have c: "get_method period ''close'' = Inr en"
    using assms(4) by (auto simp: getitem_def get_method_def dict_get_def split: json.splits option.splits)
  have step: "period_step (Suc 0) (replicate 7 []) period
                = bind (place_period (replicate 7 []) st en) (\<lambda>ps'. Inr (False, ps'))"
    using assms(3) c en by (simp add: period_step_def)
  have run: "OpeningHours_from_api_format data
               = bind (place_period (replicate 7 []) st en) (\<lambda>ps.
                 bind (rotate_week ps) (\<lambda>ps'. Inr \<lparr> periods = ps', weekday_descriptions = wd \<rparr>))"
    using assms(1,2) step
    by (cases "place_period (replicate 7 []) st en")
       (simp_all add: OpeningHours_from_api_format_def iter_json_def)
  show ?thesis
  proof (intro conjI impI)
    assume eq: "d' = d"
    have "place_period (replicate 7 []) st en
            = Inr ((replicate 7 [])[nat d := [(Some (Time h m), Some (Time h' m'))]])"
      using assms eq s e by (intro place_period_same_day) simp_all
    then show "OpeningHours_from_api_format data
              = Inr \<lparr> periods = (replicate 7 [])
                         [nat ((d + 6) mod 7) := [(Some (Time h m), Some (Time h' m'))]],
                      weekday_descriptions = wd \<rparr>"
      using assms eq by (simp add: run rotate_week_one)
  next
    assume eq: "d' = d + 1"
    have "place_period (replicate 7 []) st en
            = Inr ((replicate 7 [])[nat d := [(Some (Time h m), None)],
                                    nat (d + 1) := [(None, Some (Time h' m'))]])"
      using assms eq s e by (intro place_period_overnight) simp_all
    then show "OpeningHours_from_api_format data
              = Inr \<lparr> periods = (replicate 7 [])
                         [nat ((d + 6) mod 7) := [(Some (Time h m), None)],
                          nat ((d' + 6) mod 7) := [(None, Some (Time h' m'))]],
                      weekday_descriptions = wd \<rparr>"
      using assms eq by (simp add: run rotate_week_two)
  qed
qed


theorem OpeningHours_no_close_witness:
  "OpeningHours_from_api_format
     (JDict [(''weekdayDescriptions'', JList []),
             (''periods'', JList [JDict [(''open'', JDict [(''day'', JInt 0), (''hour'', JInt 0), (''minute'', JInt 0)])]])])
     = Inr \<lparr> periods = replicate 7 [(None, None)], weekday_descriptions = JList [] \<rparr>
   \<and> OpeningHours_from_api_format
     (JDict [(''weekdayDescriptions'', JList []),
             (''periods'', JList
                [JDict [(''open'', JDict [(''day'', JInt 1), (''hour'', JInt 9), (''minute'', JInt 0)]),
                        (''close'', JDict [(''day'', JInt 1), (''hour'', JInt 17), (''minute'', JInt 0)])],
                 JDict [(''open'', JDict [(''day'', JInt 0), (''hour'', JInt 0), (''minute'', JInt 0)])]])])
     = Inl (RuntimeError ''If you see this message, please report it as a bug.'')"
proof -
  let ?open = "JDict [(''open'', JDict [(''day'', JInt 0), (''hour'', JInt 0), (''minute'', JInt 0)])]"
  let ?mon = "JDict [(''open'', JDict [(''day'', JInt 1), (''hour'', JInt 9), (''minute'', JInt 0)]),
                        (''close'', JDict [(''day'', JInt 1), (''hour'', JInt 17), (''minute'', JInt 0)])]"
  have a: "OpeningHours_from_api_format
     (JDict [(''weekdayDescriptions'', JList []), (''periods'', JList [?open])])
     = Inr \<lparr> periods = replicate 7 [(None, None)], weekday_descriptions = JList [] \<rparr>"
    using OpeningHours_no_close
      [of "JDict [(''weekdayDescriptions'', JList []), (''periods'', JList [?open])]"
          "JList []" "[?open]" ?open]
    by (simp add: getitem_def no_close_def dict_get_def)
  have pre: "periods_loop (length [?mon, ?open]) [?mon] (replicate 7 [])
               = Inr ((replicate 7 [])[1 := [(Some (Time 9 0), Some (Time 17 0))]])"
    by (simp add: period_step_def getitem_def get_method_def dict_get_def place_period_def
          as_num_def as_int_def time_of_point_def datetime_time_def append_at_def)
  have h: "1 < length [?mon, ?open] \<and> [?mon, ?open] = [?mon] @ ?open # []
            \<and> (\<exists>s. getitem ?open ''open'' = Inr s)
            \<and> (\<exists>ps. periods_loop (length [?mon, ?open]) [?mon] (replicate 7 []) = Inr ps)"
    using pre by (simp add: getitem_def)
  have d: "getitem (JDict [(''weekdayDescriptions'', JList []), (''periods'', JList [?mon, ?open])])
             ''weekdayDescriptions'' = Inr (JList [])"
    by (simp add: getitem_def)
  have e: "getitem (JDict [(''weekdayDescriptions'', JList []), (''periods'', JList [?mon, ?open])])
             ''periods'' = Inr (JList [?mon, ?open])"
    by (simp add: getitem_def)
  have m: "?open \<in> set [?mon, ?open]" by simp
  have c: "no_close ?open" by (simp add: no_close_def dict_get_def)
  have b: "OpeningHours_from_api_format
     (JDict [(''weekdayDescriptions'', JList []), (''periods'', JList [?mon, ?open])])
     = Inl (RuntimeError ''If you see this message, please report it as a bug.'')"
    by (rule OpeningHours_no_close [OF d e m c, THEN conjunct2, THEN conjunct2, THEN mp, OF h])
  from a b show ?thesis by (rule conjI)
qed

text \<open>
  The claim as stated fails as soon as another period stands in the list: the guard on
  \<open>len(data["periods"])\<close> raises \<open>RuntimeError\<close>.
\<close>

theorem OpeningHours_no_close_counterexample:
  "OpeningHours_from_api_format
     (JDict [(''weekdayDescriptions'', JList []),
             (''periods'', JList
                [JDict [(''open'', JDict [(''day'', JInt 0), (''hour'', JInt 0), (''minute'', JInt 0)])],
                 JDict [(''open'', JDict [(''day'', JInt 1), (''hour'', JInt 9), (''minute'', JInt 0)]),
                        (''close'', JDict [(''day'', JInt 1), (''hour'', JInt 17), (''minute'', JInt 0)])]])])
     = Inl (RuntimeError ''If you see this message, please report it as a bug.'')"
  by (simp add: OpeningHours_from_api_format_def getitem_def iter_json_def period_step_def
        get_method_def dict_get_def)

text \<open>
  The two examples of the claim: Sunday 09:00 to 17:00 lands in bucket 6; Monday 23:00 to
  Tuesday 01:00 lands in buckets 0 and 1.
\<close>

theorem OpeningHours_single_period_witness:
  "OpeningHours_from_api_format
     (JDict [(''weekdayDescriptions'', JList []),
             (''periods'', JList
                [JDict [(''open'', JDict [(''day'', JInt 0), (''hour'', JInt 9), (''minute'', JInt 0)]),
                        (''close'', JDict [(''day'', JInt 0), (''hour'', JInt 17), (''minute'', JInt 0)])]])])
     = Inr \<lparr> periods = [[], [], [], [], [], [], [(Some (Time 9 0), Some (Time 17 0))]],
             weekday_descriptions = JList [] \<rparr>
   \<and> OpeningHours_from_api_format
     (JDict [(''weekdayDescriptions'', JList []),
             (''periods'', JList
                [JDict [(''open'', JDict [(''day'', JInt 1), (''hour'', JInt 23), (''minute'', JInt 0)]),
                        (''close'', JDict [(''day'', JInt 2), (''hour'', JInt 1), (''minute'', JInt 0)])]])])
     = Inr \<lparr> periods = [[(Some (Time 23 0), None)], [(None, Some (Time 1 0))], [], [], [], [], []],
             weekday_descriptions = JList [] \<rparr>"
proof -
  have a: "OpeningHours_from_api_format
     (JDict [(''weekdayDescriptions'', JList []),
             (''periods'', JList
                [JDict [(''open'', JDict [(''day'', JInt 0), (''hour'', JInt 9), (''minute'', JInt 0)]),
                        (''close'', JDict [(''day'', JInt 0), (''hour'', JInt 17), (''minute'', JInt 0)])]])])
     = Inr \<lparr> periods = (replicate 7 [])[nat ((0 + 6) mod 7) := [(Some (Time 9 0), Some (Time 17 0))]],
             weekday_descriptions = JList [] \<rparr>"
    using OpeningHours_single_period
      [of _ "JList []" _ "JDict [(''day'', JInt 0), (''hour'', JInt 9), (''minute'', JInt 0)]"
          "JDict [(''day'', JInt 0), (''hour'', JInt 17), (''minute'', JInt 0)]" 0 9 0 0 17 0]
    by (simp add: getitem_def)
  have b: "OpeningHours_from_api_format
     (JDict [(''weekdayDescriptions'', JList []),
             (''periods'', JList
                [JDict [(''open'', JDict [(''day'', JInt 1), (''hour'', JInt 23), (''minute'', JInt 0)]),
                        (''close'', JDict [(''day'', JInt 2), (''hour'', JInt 1), (''minute'', JInt 0)])]])])
     = Inr \<lparr> periods = (replicate 7 [])[nat ((1 + 6) mod 7) := [(Some (Time 23 0), None)],
                                          nat ((2 + 6) mod 7) := [(None, Some (Time 1 0))]],
             weekday_descriptions = JList [] \<rparr>"
    using OpeningHours_single_period
      [of _ "JList []" _ "JDict [(''day'', JInt 1), (''hour'', JInt 23), (''minute'', JInt 0)]"
          "JDict [(''day'', JInt 2), (''hour'', JInt 1), (''minute'', JInt 0)]" 1 23 0 2 1 0]
    by (simp add: getitem_def)
  show ?thesis
    using a b by (simp add: numeral_eq_Suc)
qed


lemma period_step_week_wrap:
  assumes "getitem period ''open'' = Inr st" and "getitem period ''close'' = Inr en"
      and "getitem st ''day'' = Inr (JInt d1)" and "getitem en ''day'' = Inr (JInt d2)"
      and "d2 < d1"
  shows "period_step n ps period = Inr (False, ps)"
proof -
  have en: "en \<noteq> JNull" using assms(4) by (auto simp: getitem_def)
  have c: "get_method period ''close'' = Inr en"
    using assms(2) by (auto simp: getitem_def get_method_def dict_get_def split: json.splits option.splits)
  have "place_period ps st en = Inr ps"
    using assms(3,4,5) by (simp add: place_period_def as_int_def as_num_def)
  then show ?thesis
    using assms(1) c en by (simp add: period_step_def)
qed

lemma periods_loop_skip:
  assumes "\<And>ps. period_step n ps period = Inr (False, ps)"
  shows "periods_loop n (before @ period # after) ps = periods_loop n (before @ after) ps"
proof (induction before arbitrary: ps)
  case Nil
  show ?case by (simp add: assms)
next
  case (Cons q rest)
  show ?case
    by (cases "period_step n ps q") (simp_all add: Cons.IH)
qed

lemma period_step_length_irrelevant:
  assumes "(1 < n) = (1 < n') \<or> \<not> no_close q"
  shows "period_step n ps q = period_step n' ps q"
proof (cases "getitem q ''open''")
  case (Inl e)
  then show ?thesis by (simp add: period_step_def)
next
  case (Inr st)
  then obtain d where q: "q = JDict d" by (cases q) (simp_all add: getitem_def)
  show ?thesis
    using assms Inr by (auto simp: q period_step_def get_method_def no_close_def)
qed

lemma periods_loop_length_irrelevant:
  assumes "(1 < n) = (1 < n') \<or> (\<forall>q \<in> set items. \<not> no_close q)"
  shows "periods_loop n items ps = periods_loop n' items ps"
  using assms
proof (induction items arbitrary: ps)
  case Nil
  show ?case by simp
next
  case (Cons q rest)
  have step: "period_step n ps q = period_step n' ps q"
    using Cons.prems by (intro period_step_length_irrelevant) auto
  have rest: "\<And>ps'. periods_loop n rest ps' = periods_loop n' rest ps'"
    using Cons.prems by (intro Cons.IH) auto
  show ?case
    by (cases "period_step n' ps q") (simp_all add: step rest)
qed

text \<open>
  C10 (as amended). A period with a closing time whose opening day is greater than its
  closing day is appended to no bucket, and the result is that of the same input without
  the period, unless the remaining list is a single period without closing time.
\<close>

theorem OpeningHours_week_wrap:
  assumes "getitem data' ''weekdayDescriptions'' = getitem data ''weekdayDescriptions''"
      and "getitem data ''periods'' = Inr (JList (before @ period # after))"
      and "getitem data' ''periods'' = Inr (JList (before @ after))"
      and "getitem period ''open'' = Inr st" and "getitem period ''close'' = Inr en"
      and "getitem st ''day'' = Inr (JInt d1)" and "getitem en ''day'' = Inr (JInt d2)"
      and "d2 < d1"
      and "length (before @ after) \<noteq> 1 \<or> (\<forall>q \<in> set (before @ after). \<not> no_close q)"
  shows "period_step n ps period = Inr (False, ps)
       \<and> OpeningHours_from_api_format data = OpeningHours_from_api_format data'"
proof
  show "period_step n ps period = Inr (False, ps)"
    using assms(4-8) by (rule period_step_week_wrap)
next
  let ?n = "length (before @ period # after)" and ?n' = "length (before @ after)"
  have skip: "periods_loop ?n (before @ period # after) (replicate 7 [])
                = periods_loop ?n (before @ after) (replicate 7 [])"
    by (rule periods_loop_skip) (rule period_step_week_wrap [OF assms(4-8)])
  have "(1 < ?n) = (1 < ?n') \<or> (\<forall>q \<in> set (before @ after). \<not> no_close q)"
  proof (cases "length (before @ after) = 1")
    case True
    with assms(9) show ?thesis by blast
  next
    case False
    moreover have "?n = Suc ?n'" by simp
    ultimately have "(1 < ?n) = (1 < ?n')" by arith
    then show ?thesis ..
  qed
  then have len: "periods_loop ?n (before @ after) (replicate 7 [])
                = periods_loop ?n' (before @ after) (replicate 7 [])"
    by (rule periods_loop_length_irrelevant)
  show "OpeningHours_from_api_format data = OpeningHours_from_api_format data'"
    unfolding OpeningHours_from_api_format_def assms(1,2,3)
    by (simp add: iter_json_def skip len del: length_append append_assoc)
qed

theorem OpeningHours_week_wrap_witness:
  "OpeningHours_from_api_format
     (JDict [(''weekdayDescriptions'', JList []),
             (''periods'', JList
                [JDict [(''open'', JDict [(''day'', JInt 6), (''hour'', JInt 22), (''minute'', JInt 0)]),
                        (''close'', JDict [(''day'', JInt 0), (''hour'', JInt 2), (''minute'', JInt 0)])],
                 JDict [(''open'', JDict [(''day'', JInt 1), (''hour'', JInt 9), (''minute'', JInt 0)]),
                        (''close'', JDict [(''day'', JInt 1), (''hour'', JInt 17), (''minute'', JInt 0)])]])])
   = OpeningHours_from_api_format
     (JDict [(''weekdayDescriptions'', JList []),
             (''periods'', JList
                [JDict [(''open'', JDict [(''day'', JInt 1), (''hour'', JInt 9), (''minute'', JInt 0)]),
                        (''close'', JDict [(''day'', JInt 1), (''hour'', JInt 17), (''minute'', JInt 0)])]])])"
  using OpeningHours_week_wrap
    [of _ _ "[]"
        "JDict [(''open'', JDict [(''day'', JInt 6), (''hour'', JInt 22), (''minute'', JInt 0)]),
                (''close'', JDict [(''day'', JInt 0), (''hour'', JInt 2), (''minute'', JInt 0)])]"
        "[JDict [(''open'', JDict [(''day'', JInt 1), (''hour'', JInt 9), (''minute'', JInt 0)]),
                 (''close'', JDict [(''day'', JInt 1), (''hour'', JInt 17), (''minute'', JInt 0)])]]"
        "JDict [(''day'', JInt 6), (''hour'', JInt 22), (''minute'', JInt 0)]"
        "JDict [(''day'', JInt 0), (''hour'', JInt 2), (''minute'', JInt 0)]" 6 0]
  by (simp add: getitem_def no_close_def dict_get_def)

text \<open>
  The exception: with the week-wrapping period the list has two entries, so the period
  without closing time raises \<open>RuntimeError\<close>; without it the input decodes to the
  always-open value.
\<close>

theorem OpeningHours_week_wrap_counterexample:
  "OpeningHours_from_api_format
     (JDict [(''weekdayDescriptions'', JList []),
             (''periods'', JList
                [JDict [(''open'', JDict [(''day'', JInt 6), (''hour'', JInt 22), (''minute'', JInt 0)]),
                        (''close'', JDict [(''day'', JInt 0), (''hour'', JInt 2), (''minute'', JInt 0)])],
                 JDict [(''open'', JDict [(''day'', JInt 0), (''hour'', JInt 0), (''minute'', JInt 0)])]])])
     = Inl (RuntimeError ''If you see this message, please report it as a bug.'')
   \<and> OpeningHours_from_api_format
     (JDict [(''weekdayDescriptions'', JList []),
             (''periods'', JList
                [JDict [(''open'', JDict [(''day'', JInt 0), (''hour'', JInt 0), (''minute'', JInt 0)])]])])
     = Inr \<lparr> periods = replicate 7 [(None, None)], weekday_descriptions = JList [] \<rparr>"
  by (simp add: OpeningHours_from_api_format_def getitem_def iter_json_def period_step_def
        get_method_def dict_get_def place_period_def as_int_def as_num_def append_each_whole_week
        rotate_week_replicate)

section \<open>Properties of the error of the service\<close>

text \<open>
  C8. Built from status code 400 and the body with message "Invalid argument" and status
  "INVALID_ARGUMENT", the error carries the three values unchanged; built from the empty
  body it has no message, status or details, and its rendering contains "Unknown error".
\<close>

theorem APIError_from_api_response_fields:
  "status_code (APIError_from_api_response 400
      [(''message'', JStr ''Invalid argument''), (''status'', JStr ''INVALID_ARGUMENT'')]) = 400
   \<and> message (APIError_from_api_response 400
      [(''message'', JStr ''Invalid argument''), (''status'', JStr ''INVALID_ARGUMENT'')])
       = JStr ''Invalid argument''
   \<and> status (APIError_from_api_response 400
      [(''message'', JStr ''Invalid argument''), (''status'', JStr ''INVALID_ARGUMENT'')])
       = JStr ''INVALID_ARGUMENT''
   \<and> message (APIError_from_api_response code []) = JNull
   \<and> status (APIError_from_api_response code []) = JNull
   \<and> details (APIError_from_api_response code []) = JNull
   \<and> APIError_str fmt (APIError_from_api_response code []) = ''APIError: Unknown error''
   \<and> sublist ''Unknown error'' (APIError_str fmt (APIError_from_api_response code []))"
proof -
  have r: "APIError_str fmt (APIError_from_api_response code []) = ''APIError: '' @ ''Unknown error''"
    by (simp add: APIError_str_def APIError_from_api_response_def dict_get_def)
  have s: "sublist ''Unknown error'' (APIError_str fmt (APIError_from_api_response code []))"
    unfolding r by (rule sublist_append_leftI)
  show ?thesis
    using r s by (simp add: APIError_from_api_response_def dict_get_def)
qed

section \<open>Properties of the field mask\<close>

lemmas char_simps = to_lower_def to_upper_def is_upper_def upper_letters_def lower_letters_def

lemma join_contains: "x \<in> set xs \<Longrightarrow> sublist x (join sep xs)"
proof (induction sep xs rule: join.induct)
  case (1 sep)
  then show ?case by simp
next
  case (2 sep y)
  then show ?case by simp
next
  case (3 sep y z zs)
  show ?case
  proof (cases "x = y")
    case True
    then show ?thesis by simp
  next
    case False
    with 3 have "sublist x (join sep (z # zs))" by simp
    then have "sublist x ((y @ sep) @ join sep (z # zs))"
      by (rule sublist_order.order_trans) (rule sublist_append_leftI)
    then show ?thesis by simp
  qed
qed

lemma singleton_list:
  assumes "set xs = {a}" and "distinct xs"
  shows "xs = [a]"
proof (cases xs)
  case Nil
  with assms show ?thesis by simp
next
  case (Cons y ys)
  with assms have "y = a" by auto
  moreover have "ys = []"
  proof (cases ys)
    case Nil then show ?thesis .
  next
    case (Cons z zs)
    with assms \<open>xs = y # ys\<close> have "z = a" "z \<noteq> y" by auto
    with \<open>y = a\<close> show ?thesis by simp
  qed
  ultimately show ?thesis using Cons by simp
qed

lemma doubleton_list:
  assumes "set xs = {a, b}" and "distinct xs" and "a \<noteq> b"
  shows "xs = [a, b] \<or> xs = [b, a]"
proof -
  have "length xs = card {a, b}" using assms(1,2) by (metis distinct_card)
  then have "length xs = 2" using assms(3) by simp
  then obtain x y where xy: "xs = [x, y]"
    by (cases xs; cases "tl xs") (auto simp: numeral_2_eq_2)
  from assms(1) have "{x, y} = {a, b}" unfolding xy by simp
  then have "(x = a \<and> y = b) \<or> (x = b \<and> y = a)" by (simp add: doubleton_eq_iff)
  then show ?thesis unfolding xy by simp
qed

lemma join_concat: "join sep (x # xs) = x @ concat (map (\<lambda>y. sep @ y) xs)"
  by (induction xs arbitrary: x) simp_all

lemma create_field_mask_unfold:
  "create_field_mask iter requested add_prefix =
     (if requested = [] then Inl (ValueError ''At least one field must be provided.'')
      else if ''*'' \<in> set requested then Inr ''*''
      else if \<not> set requested \<subseteq> set Place_fields
        then Inl (ValueError (''Invalid field(s): '' @
                join '', '' (iter (set requested - set Place_fields))))
      else Inr (join '','' (map (\<lambda>field. to_api_name field add_prefix) (iter (set requested)))))"
  unfolding create_field_mask_def Let_def by (simp add: Diff_eq_empty_iff)

lemma to_api_name_unfold:
  "(\<lambda>field. to_api_name field add_prefix)
     = (\<lambda>f. (if add_prefix then ''places.'' else []) @ camelcase f)"
  by (rule ext) (simp add: to_api_name_def)

text \<open>
  C3. Whatever the order in which the sets are iterated: \<open>create_field_mask\<close> fails with
  a \<open>ValueError\<close> on the empty set of fields; returns \<open>"*"\<close> for the set \<open>{"*"}\<close>; fails
  with a \<open>ValueError\<close> whose message contains every offending name when the set, without
  \<open>"*"\<close>, has a name that is not a field of \<open>Place\<close>; returns \<open>"places.rating"\<close> for
  \<open>{"rating"}\<close> with the prefix; for \<open>{"rating", "display_name"}\<close> with the prefix it
  returns the two prefixed camel-case names with one comma between them, in one of the
  two orders; and in general the mask is, for some order of the requested names without
  repetition, the first name followed by a comma and a name for each of the others, each
  name in camel case and after \<open>"places."\<close> when the prefix is asked for.
\<close>

theorem create_field_mask_cases:
  "create_field_mask iter [] add_prefix = Inl (ValueError ''At least one field must be provided.'')
   \<and> (set requested = {''*''} \<longrightarrow> create_field_mask iter requested add_prefix = Inr ''*'')
   \<and> (''*'' \<notin> set requested \<and> \<not> set requested \<subseteq> set Place_fields \<longrightarrow>
        (\<exists>msg. create_field_mask iter requested add_prefix = Inl (ValueError msg)
           \<and> (enumerates iter (set requested - set Place_fields) \<longrightarrow>
                (\<forall>f \<in> set requested. f \<notin> set Place_fields \<longrightarrow> sublist f msg))))
   \<and> (set requested = {''rating''} \<and> enumerates iter {''rating''} \<longrightarrow>
        create_field_mask iter requested True = Inr ''places.rating'')
   \<and> (set requested = {''rating'', ''display_name''}
        \<and> enumerates iter {''rating'', ''display_name''} \<longrightarrow>
        create_field_mask iter requested True = Inr ''places.rating,places.displayName''
        \<or> create_field_mask iter requested True = Inr ''places.displayName,places.rating'')
   \<and> (requested \<noteq> [] \<and> ''*'' \<notin> set requested \<and> set requested \<subseteq> set Place_fields
        \<and> enumerates iter (set requested) \<longrightarrow>
        (\<exists>name others. set (name # others) = set requested \<and> distinct (name # others)
           \<and> create_field_mask iter requested add_prefix
               = Inr (((if add_prefix then ''places.'' else []) @ camelcase name)
                      @ concat (map (\<lambda>f. '','' @ (if add_prefix then ''places.'' else []) @ camelcase f)
                                    others))))"
proof (intro conjI impI)
  show "create_field_mask iter [] add_prefix = Inl (ValueError ''At least one field must be provided.'')"
    by (simp add: create_field_mask_unfold)
next
  assume s: "set requested = {''*''}"
  have star: "''*'' \<in> set requested" unfolding s by (rule singletonI)
  then have "requested \<noteq> []" by (cases requested) simp_all
  with star show "create_field_mask iter requested add_prefix = Inr ''*''"
    by (simp add: create_field_mask_unfold)
next
  assume a: "''*'' \<notin> set requested \<and> \<not> set requested \<subseteq> set Place_fields"
  let ?inv = "iter (set requested - set Place_fields)"
  from a have r: "requested \<noteq> []" by (cases requested) simp_all
  have "create_field_mask iter requested add_prefix
          = Inl (ValueError (''Invalid field(s): '' @ join '', '' ?inv))"
    using a r by (simp add: create_field_mask_unfold)
  moreover have "enumerates iter (set requested - set Place_fields) \<longrightarrow>
                   (\<forall>f \<in> set requested. f \<notin> set Place_fields \<longrightarrow>
                      sublist f (''Invalid field(s): '' @ join '', '' ?inv))"
  proof (intro ballI impI)
    fix f
    assume e: "enumerates iter (set requested - set Place_fields)"
      and "f \<in> set requested" "f \<notin> set Place_fields"
    then have "f \<in> set ?inv" by (simp add: enumerates_def)
    then have "sublist f (join '', '' ?inv)" by (rule join_contains)
    then show "sublist f (''Invalid field(s): '' @ join '', '' ?inv)"
      by (rule sublist_order.order_trans) (rule sublist_append_leftI)
  qed
  ultimately show "\<exists>msg. create_field_mask iter requested add_prefix = Inl (ValueError msg)
           \<and> (enumerates iter (set requested - set Place_fields) \<longrightarrow>
                (\<forall>f \<in> set requested. f \<notin> set Place_fields \<longrightarrow> sublist f msg))"
    by blast
next
  assume h: "set requested = {''rating''} \<and> enumerates iter {''rating''}"
  then have s: "set requested = {''rating''}" and e: "enumerates iter {''rating''}" by simp_all
  from e have "set (iter {''rating''}) = {''rating''}" and "distinct (iter {''rating''})"
    by (simp_all add: enumerates_def)
  then have r: "iter {''rating''} = [''rating'']" by (rule singleton_list)
  have "''rating'' \<in> set requested" unfolding s by (rule singletonI)
  then have ne: "requested \<noteq> []" by (cases requested) simp_all
  have star: "''*'' \<notin> set requested" unfolding s by simp
  have known: "set requested \<subseteq> set Place_fields" unfolding s by (simp add: Place_fields_def)
  have "to_api_name ''rating'' True = ''places.rating''"
    by (simp add: to_api_name_def camelcase_def char_simps)
  then have "join '','' (map (\<lambda>field. to_api_name field True) (iter (set requested)))
               = ''places.rating''"
    unfolding s r by simp
  then show "create_field_mask iter requested True = Inr ''places.rating''"
    using ne star known by (simp add: create_field_mask_unfold)
next
  assume h: "set requested = {''rating'', ''display_name''}
        \<and> enumerates iter {''rating'', ''display_name''}"
  then have s: "set requested = {''rating'', ''display_name''}"
    and e: "enumerates iter {''rating'', ''display_name''}" by simp_all
  from e have "set (iter {''rating'', ''display_name''}) = {''rating'', ''display_name''}"
    and "distinct (iter {''rating'', ''display_name''})"
    by (simp_all add: enumerates_def)
  moreover have "''rating'' \<noteq> ''display_name''" by simp
  ultimately have r: "iter {''rating'', ''display_name''} = [''rating'', ''display_name'']
      \<or> iter {''rating'', ''display_name''} = [''display_name'', ''rating'']"
    by (rule doubleton_list)
  have "''rating'' \<in> set requested" unfolding s by simp
  then have ne: "requested \<noteq> []" by (cases requested) simp_all
  have star: "''*'' \<notin> set requested" unfolding s by simp
  have known: "set requested \<subseteq> set Place_fields" unfolding s by (simp add: Place_fields_def)
  have n1: "to_api_name ''rating'' True = ''places.rating''"
    by (simp add: to_api_name_def camelcase_def char_simps)
  have n2: "to_api_name ''display_name'' True = ''places.displayName''"
    by (simp add: to_api_name_def camelcase_def char_simps)
  have m: "create_field_mask iter requested True
             = Inr (join '','' (map (\<lambda>field. to_api_name field True)
                       (iter {''rating'', ''display_name''})))"
    using ne star known by (simp add: create_field_mask_unfold s)
  from r show "create_field_mask iter requested True = Inr ''places.rating,places.displayName''
        \<or> create_field_mask iter requested True = Inr ''places.displayName,places.rating''"
  proof
    assume "iter {''rating'', ''display_name''} = [''rating'', ''display_name'']"
    then have "create_field_mask iter requested True = Inr ''places.rating,places.displayName''"
      unfolding m by (simp add: n1 n2)
    then show ?thesis ..
  next
    assume "iter {''rating'', ''display_name''} = [''display_name'', ''rating'']"
    then have "create_field_mask iter requested True = Inr ''places.displayName,places.rating''"
      unfolding m by (simp add: n1 n2)
    then show ?thesis ..
  qed
next
  assume a: "requested \<noteq> [] \<and> ''*'' \<notin> set requested \<and> set requested \<subseteq> set Place_fields
        \<and> enumerates iter (set requested)"
  then have e: "set (iter (set requested)) = set requested" and d: "distinct (iter (set requested))"
    by (simp_all add: enumerates_def)
  from a e have "iter (set requested) \<noteq> []" by (cases requested) auto
  then obtain name others where n: "iter (set requested) = name # others"
    by (cases "iter (set requested)") simp_all
  have "create_field_mask iter requested add_prefix
          = Inr (join '','' (map (\<lambda>f. (if add_prefix then ''places.'' else []) @ camelcase f)
                                (name # others)))"
    using a by (simp add: create_field_mask_unfold to_api_name_unfold n)
  then have "create_field_mask iter requested add_prefix
               = Inr (((if add_prefix then ''places.'' else []) @ camelcase name)
                      @ concat (map (\<lambda>f. '','' @ (if add_prefix then ''places.'' else []) @ camelcase f)
                                    others))"
    by (simp add: join_concat comp_def)
  moreover have "set (name # others) = set requested" and "distinct (name # others)"
    using e d unfolding n by simp_all
  ultimately show "\<exists>name others. set (name # others) = set requested \<and> distinct (name # others)
           \<and> create_field_mask iter requested add_prefix
               = Inr (((if add_prefix then ''places.'' else []) @ camelcase name)
                      @ concat (map (\<lambda>f. '','' @ (if add_prefix then ''places.'' else []) @ camelcase f)
                                    others))"
    by blast
qed

theorem create_field_mask_cases_witness:
  "create_field_mask (\<lambda>S. filter (\<lambda>f. f \<in> S) [''rating'', ''display_name'', ''unknown_field''])
      [''*''] True = Inr ''*''
   \<and> create_field_mask (\<lambda>S. filter (\<lambda>f. f \<in> S) [''rating'', ''display_name'', ''unknown_field''])
      [''rating''] True = Inr ''places.rating''
   \<and> (create_field_mask (\<lambda>S. filter (\<lambda>f. f \<in> S) [''rating'', ''display_name'', ''unknown_field''])
        [''display_name'', ''rating''] True = Inr ''places.rating,places.displayName''
      \<or> create_field_mask (\<lambda>S. filter (\<lambda>f. f \<in> S) [''rating'', ''display_name'', ''unknown_field''])
        [''display_name'', ''rating''] True = Inr ''places.displayName,places.rating'')
   \<and> (\<exists>msg. create_field_mask
               (\<lambda>S. filter (\<lambda>f. f \<in> S) [''rating'', ''display_name'', ''unknown_field''])
               [''unknown_field''] True = Inl (ValueError msg)
          \<and> sublist ''unknown_field'' msg)"
proof -
  let ?iter = "\<lambda>S. filter (\<lambda>f. f \<in> S) [''rating'', ''display_name'', ''unknown_field'']"
  have s1: "set [''*''] = {''*''}" by simp
  have a: "create_field_mask ?iter [''*''] True = Inr ''*''"
    by (rule create_field_mask_cases [THEN conjunct2, THEN conjunct1, THEN mp, OF s1])
  have s2: "set [''rating''] = {''rating''} \<and> enumerates ?iter {''rating''}"
    by (simp add: enumerates_def)
  have b: "create_field_mask ?iter [''rating''] True = Inr ''places.rating''"
    by (rule create_field_mask_cases
          [THEN conjunct2, THEN conjunct2, THEN conjunct2, THEN conjunct1, THEN mp, OF s2])
  have s3: "set [''display_name'', ''rating''] = {''rating'', ''display_name''}
            \<and> enumerates ?iter {''rating'', ''display_name''}"
    by (simp add: enumerates_def insert_commute)
  have c: "create_field_mask ?iter [''display_name'', ''rating''] True
             = Inr ''places.rating,places.displayName''
           \<or> create_field_mask ?iter [''display_name'', ''rating''] True
             = Inr ''places.displayName,places.rating''"
    by (rule create_field_mask_cases
          [THEN conjunct2, THEN conjunct2, THEN conjunct2, THEN conjunct2, THEN conjunct1,
           THEN mp, OF s3])
  have u: "''unknown_field'' \<notin> set Place_fields" by (simp add: Place_fields_def)
  then have dif: "set [''unknown_field''] - set Place_fields = {''unknown_field''}"
    by (simp add: insert_Diff_if)
  have s4: "''*'' \<notin> set [''unknown_field''] \<and> \<not> set [''unknown_field''] \<subseteq> set Place_fields"
    using u by simp
  have en: "enumerates ?iter (set [''unknown_field''] - set Place_fields)"
    unfolding dif by (simp add: enumerates_def)
  from create_field_mask_cases
          [THEN conjunct2, THEN conjunct2, THEN conjunct1, THEN mp, OF s4]
  obtain msg where m: "create_field_mask ?iter [''unknown_field''] True = Inl (ValueError msg)"
      and l: "enumerates ?iter (set [''unknown_field''] - set Place_fields) \<longrightarrow>
                (\<forall>f \<in> set [''unknown_field'']. f \<notin> set Place_fields \<longrightarrow> sublist f msg)"
    by blast
  from l en u have "sublist ''unknown_field'' msg" by simp
  with m have d: "\<exists>msg. create_field_mask ?iter [''unknown_field''] True = Inl (ValueError msg)
          \<and> sublist ''unknown_field'' msg"
    by blast
  from a b c d show ?thesis by (intro conjI)
qed

text \<open>
  Both orders occur: the same request gives either mask, depending on the order in which
  the run iterates the set.
\<close>

lemma create_field_mask_both_orders:
  "create_field_mask (\<lambda>S. filter (\<lambda>f. f \<in> S) [''rating'', ''display_name''])
      [''display_name'', ''rating''] True = Inr ''places.rating,places.displayName''
   \<and> create_field_mask (\<lambda>S. filter (\<lambda>f. f \<in> S) [''display_name'', ''rating''])
      [''display_name'', ''rating''] True = Inr ''places.displayName,places.rating''"
  by (simp add: create_field_mask_unfold Place_fields_def to_api_name_def camelcase_def char_simps)

section \<open>Properties of the codecs\<close>

lemma map_of_dict_set: "map_of (dict_set d k v) = (map_of d)(k \<mapsto> v)"
  by (induction d k v rule: dict_set.induct) (auto simp: fun_eq_iff)

lemma fold_dict_set_other:
  assumes "k' \<notin> (\<lambda>kv. f (fst kv)) ` set d"
  shows "map_of (fold (\<lambda>kv acc. dict_set acc (f (fst kv)) (snd kv)) d acc) k' = map_of acc k'"
  using assms by (induction d arbitrary: acc) (auto simp: map_of_dict_set)

lemma fold_dict_set_lookup:
  assumes "distinct (map (\<lambda>kv. f (fst kv)) d)" and "(k, v) \<in> set d"
  shows "map_of (fold (\<lambda>kv acc. dict_set acc (f (fst kv)) (snd kv)) d acc) (f k) = Some v"
  using assms
proof (induction d arbitrary: acc)
  case Nil
  then show ?case by simp
next
  case (Cons x d)
  show ?case
  proof (cases "x = (k, v)")
    case True
    have "f k \<notin> (\<lambda>kv. f (fst kv)) ` set d" using Cons.prems(1) True by auto
    then show ?thesis
      using True by (simp add: fold_dict_set_other map_of_dict_set)
  next
    case False
    with Cons.prems have "(k, v) \<in> set d" and "distinct (map (\<lambda>kv. f (fst kv)) d)" by auto
    then show ?thesis by (simp add: Cons.IH)
  qed
qed

lemma key_map_lookup:
  assumes "distinct (map fst d)" and "inj_on f (set (map fst d))" and "map_of d k = Some v"
  shows "map_of (key_map f d) (f k) = Some v"
proof -
  have "distinct (map f (map fst d))"
    using assms(1,2) by (subst distinct_map) simp
  then have "distinct (map (\<lambda>kv. f (fst kv)) d)"
    by (simp add: comp_def)
  moreover have "(k, v) \<in> set d" using assms(3) by (rule map_of_SomeD)
  ultimately show ?thesis unfolding key_map_def by (rule fold_dict_set_lookup)
qed

lemma key_map_keys: "set (map fst (key_map f d)) = f ` set (map fst d)"
proof -
  have "dom (map_of (fold (\<lambda>kv acc. dict_set acc (f (fst kv)) (snd kv)) d acc))
          = dom (map_of acc) \<union> f ` set (map fst d)" for acc
    by (induction d arbitrary: acc) (auto simp: map_of_dict_set)
  from this [of "[]"] show ?thesis
    by (simp add: key_map_def dom_map_of_conv_image_fst)
qed

lemma dict_eq_iff:
  "dict_eq d1 d2 \<longleftrightarrow> map_of d1 = map_of d2"
proof
  assume a: "dict_eq d1 d2"
  show "map_of d1 = map_of d2"
  proof
    fix k
    show "map_of d1 k = map_of d2 k"
    proof (cases "k \<in> set (map fst d1) \<or> k \<in> set (map fst d2)")
      case True
      with a show ?thesis by (auto simp: dict_eq_def list_all_iff)
    next
      case False
      then have "map_of d1 k = None" "map_of d2 k = None"
        by (simp_all add: map_of_eq_None_iff)
      then show ?thesis by simp
    qed
  qed
next
  assume "map_of d1 = map_of d2"
  then show "dict_eq d1 d2" by (simp add: dict_eq_def list_all_iff)
qed


lemma map_of_present:
  assumes "k \<in> set (map fst w)"
  shows "\<exists>v. map_of w k = Some v"
  using assms by (cases "map_of w k") (simp_all add: map_of_eq_None_iff)

lemma dict_eq_listed:
  assumes "set (map fst w) = set (map fst d)"
      and "list_all (\<lambda>kv. map_of w (fst kv) = map_of d (fst kv)) d"
  shows "dict_eq d w"
  unfolding dict_eq_def list_all_iff
proof
  fix k assume "k \<in> set (map fst d @ map fst w)"
  then have "k \<in> set (map fst d)" using assms(1) by auto
  then obtain kv where "kv \<in> set d" and "fst kv = k" by auto
  with assms(2) show "map_of d k = map_of w k" by (auto simp: list_all_iff)
qed

lemma LocalizedString_domain:
  assumes "check ''LocalizedString'' (LocalizedString_asdict x)"
  shows "LocalizedString_from_api_format check (JDict (LocalizedString_to_api_format x)) = Inr x"
  using assms
  by (cases x)
     (simp add: LocalizedString_from_api_format_def LocalizedString_to_api_format_def dict_items_def
        key_map_def camelcase_def snakecase_def char_simps LocalizedString_init_def unexpected_def
        required_def optional_def )

lemma LocalizedString_wire:
  assumes d: "distinct (map fst w)"
      and k: "set (map fst w) = {''text'', ''languageCode''}"
      and c: "check ''LocalizedString'' (key_map snakecase w)"
  shows "\<exists>x. LocalizedString_from_api_format check (JDict w) = Inr x
           \<and> dict_eq (LocalizedString_to_api_format x) w"
proof -
  have inj: "inj_on snakecase (set (map fst w))"
    unfolding k by (simp add: snakecase_def char_simps)
  obtain v1 where v1: "map_of w ''text'' = Some v1"
    using map_of_present [of "''text''" w] k by auto
  obtain v2 where v2: "map_of w ''languageCode'' = Some v2"
    using map_of_present [of "''languageCode''" w] k by auto
  have l1: "map_of (key_map snakecase w) ''text'' = Some v1"
    using key_map_lookup [OF d inj v1] by (simp add: snakecase_def char_simps)
  have l2: "map_of (key_map snakecase w) ''language_code'' = Some v2"
    using key_map_lookup [OF d inj v2] by (simp add: snakecase_def char_simps)
  have u: "\<not> unexpected [''text'', ''language_code''] (key_map snakecase w)"
    unfolding unexpected_def key_map_keys k by (simp add: snakecase_def char_simps )
  have dec: "LocalizedString_from_api_format check (JDict w) = Inr (LocalizedString v1 v2)"
    using u l1 l2 c
    by (simp add: LocalizedString_from_api_format_def dict_items_def LocalizedString_init_def
          required_def optional_def)
  have enc: "LocalizedString_to_api_format (LocalizedString v1 v2)
               = [(''text'', v1), (''languageCode'', v2)]"
    by (simp add: LocalizedString_to_api_format_def key_map_def camelcase_def char_simps)
  have ks: "set (map fst w) = set (map fst [(''text'', v1), (''languageCode'', v2)])"
    unfolding k by simp
  have "dict_eq [(''text'', v1), (''languageCode'', v2)] w"
    using ks by (rule dict_eq_listed) (simp add: v1 v2)
  with dec enc show ?thesis by simp
qed

lemma AddressComponent_domain:
  assumes "check ''AddressComponent'' (AddressComponent_asdict x)"
  shows "AddressComponent_from_api_format check (JDict (AddressComponent_to_api_format x)) = Inr x"
  using assms
  by (cases x)
     (simp add: AddressComponent_from_api_format_def AddressComponent_to_api_format_def dict_items_def
        key_map_def camelcase_def snakecase_def char_simps AddressComponent_init_def unexpected_def
        required_def optional_def )

lemma AddressComponent_wire:
  assumes d: "distinct (map fst w)"
      and k: "set (map fst w) = {''longText'', ''shortText'', ''types'', ''languageCode''}"
      and c: "check ''AddressComponent'' (key_map snakecase w)"
  shows "\<exists>x. AddressComponent_from_api_format check (JDict w) = Inr x
           \<and> dict_eq (AddressComponent_to_api_format x) w"
proof -
  have inj: "inj_on snakecase (set (map fst w))"
    unfolding k by (simp add: snakecase_def char_simps)
  obtain v1 where v1: "map_of w ''longText'' = Some v1"
    using map_of_present [of "''longText''" w] k by auto
  obtain v2 where v2: "map_of w ''shortText'' = Some v2"
    using map_of_present [of "''shortText''" w] k by auto
  obtain v3 where v3: "map_of w ''types'' = Some v3"
    using map_of_present [of "''types''" w] k by auto
  obtain v4 where v4: "map_of w ''languageCode'' = Some v4"
    using map_of_present [of "''languageCode''" w] k by auto
  have l1: "map_of (key_map snakecase w) ''long_text'' = Some v1"
    using key_map_lookup [OF d inj v1] by (simp add: snakecase_def char_simps)
  have l2: "map_of (key_map snakecase w) ''short_text'' = Some v2"
    using key_map_lookup [OF d inj v2] by (simp add: snakecase_def char_simps)
  have l3: "map_of (key_map snakecase w) ''types'' = Some v3"
    using key_map_lookup [OF d inj v3] by (simp add: snakecase_def char_simps)
  have l4: "map_of (key_map snakecase w) ''language_code'' = Some v4"
    using key_map_lookup [OF d inj v4] by (simp add: snakecase_def char_simps)
  have u: "\<not> unexpected [''long_text'', ''short_text'', ''types'', ''language_code''] (key_map snakecase w)"
    unfolding unexpected_def key_map_keys k by (simp add: snakecase_def char_simps )
  have dec: "AddressComponent_from_api_format check (JDict w) = Inr (AddressComponent v1 v2 v3 v4)"
    using u l1 l2 l3 l4 c
    by (simp add: AddressComponent_from_api_format_def dict_items_def AddressComponent_init_def
          required_def optional_def)
  have enc: "AddressComponent_to_api_format (AddressComponent v1 v2 v3 v4)
               = [(''longText'', v1), (''shortText'', v2), (''types'', v3), (''languageCode'', v4)]"
    by (simp add: AddressComponent_to_api_format_def key_map_def camelcase_def char_simps)
  have ks: "set (map fst w) = set (map fst [(''longText'', v1), (''shortText'', v2), (''types'', v3), (''languageCode'', v4)])"
    unfolding k by simp
  have "dict_eq [(''longText'', v1), (''shortText'', v2), (''types'', v3), (''languageCode'', v4)] w"
    using ks by (rule dict_eq_listed) (simp add: v1 v2 v3 v4)
  with dec enc show ?thesis by simp
qed

lemma AuthorAttribution_domain:
  assumes "check ''AuthorAttribution'' (AuthorAttribution_asdict x)"
  shows "AuthorAttribution_from_api_format check (JDict (AuthorAttribution_to_api_format x)) = Inr x"
  using assms
  by (cases x)
     (simp add: AuthorAttribution_from_api_format_def AuthorAttribution_to_api_format_def dict_items_def
        key_map_def camelcase_def snakecase_def char_simps AuthorAttribution_init_def unexpected_def
        required_def optional_def )

lemma AuthorAttribution_wire:
  assumes d: "distinct (map fst w)"
      and k: "set (map fst w) = {''displayName'', ''uri'', ''photoUri''}"
      and c: "check ''AuthorAttribution'' (key_map snakecase w)"
  shows "\<exists>x. AuthorAttribution_from_api_format check (JDict w) = Inr x
           \<and> dict_eq (AuthorAttribution_to_api_format x) w"
proof -
  have inj: "inj_on snakecase (set (map fst w))"
    unfolding k by (simp add: snakecase_def char_simps)
  obtain v1 where v1: "map_of w ''displayName'' = Some v1"
    using map_of_present [of "''displayName''" w] k by auto
  obtain v2 where v2: "map_of w ''uri'' = Some v2"
    using map_of_present [of "''uri''" w] k by auto
  obtain v3 where v3: "map_of w ''photoUri'' = Some v3"
    using map_of_present [of "''photoUri''" w] k by auto
  have l1: "map_of (key_map snakecase w) ''display_name'' = Some v1"
    using key_map_lookup [OF d inj v1] by (simp add: snakecase_def char_simps)
  have l2: "map_of (key_map snakecase w) ''uri'' = Some v2"
    using key_map_lookup [OF d inj v2] by (simp add: snakecase_def char_simps)
  have l3: "map_of (key_map snakecase w) ''photo_uri'' = Some v3"
    using key_map_lookup [OF d inj v3] by (simp add: snakecase_def char_simps)
  have u: "\<not> unexpected [''display_name'', ''uri'', ''photo_uri''] (key_map snakecase w)"
    unfolding unexpected_def key_map_keys k by (simp add: snakecase_def char_simps )
  have dec: "AuthorAttribution_from_api_format check (JDict w) = Inr (AuthorAttribution v1 v2 v3)"
    using u l1 l2 l3 c
    by (simp add: AuthorAttribution_from_api_format_def dict_items_def AuthorAttribution_init_def
          required_def optional_def)
  have enc: "AuthorAttribution_to_api_format (AuthorAttribution v1 v2 v3)
               = [(''displayName'', v1), (''uri'', v2), (''photoUri'', v3)]"
    by (simp add: AuthorAttribution_to_api_format_def key_map_def camelcase_def char_simps)
  have ks: "set (map fst w) = set (map fst [(''displayName'', v1), (''uri'', v2), (''photoUri'', v3)])"
    unfolding k by simp
  have "dict_eq [(''displayName'', v1), (''uri'', v2), (''photoUri'', v3)] w"
    using ks by (rule dict_eq_listed) (simp add: v1 v2 v3)
  with dec enc show ?thesis by simp
qed

lemma ParkingOptions_domain:
  assumes "check ''ParkingOptions'' (ParkingOptions_asdict x)"
  shows "ParkingOptions_from_api_format check (JDict (ParkingOptions_to_api_format x)) = Inr x"
  using assms
  by (cases x)
     (simp add: ParkingOptions_from_api_format_def ParkingOptions_to_api_format_def dict_items_def
        key_map_def camelcase_def snakecase_def char_simps ParkingOptions_init_def unexpected_def
        required_def optional_def ParkingOptions_fields_def)

lemma ParkingOptions_wire:
  assumes d: "distinct (map fst w)"
      and k: "set (map fst w) = {''freeGarageParking'', ''freeParkingLot'', ''freeStreetParking'', ''paidGarageParking'', ''paidParkingLot'', ''paidStreetParking'', ''valetParking''}"
      and c: "check ''ParkingOptions'' (key_map snakecase w)"
  shows "\<exists>x. ParkingOptions_from_api_format check (JDict w) = Inr x
           \<and> dict_eq (ParkingOptions_to_api_format x) w"
proof -
  have inj: "inj_on snakecase (set (map fst w))"
    unfolding k by (simp add: snakecase_def char_simps)
  obtain v1 where v1: "map_of w ''freeGarageParking'' = Some v1"
    using map_of_present [of "''freeGarageParking''" w] k by auto
  obtain v2 where v2: "map_of w ''freeParkingLot'' = Some v2"
    using map_of_present [of "''freeParkingLot''" w] k by auto
  obtain v3 where v3: "map_of w ''freeStreetParking'' = Some v3"
    using map_of_present [of "''freeStreetParking''" w] k by auto
  obtain v4 where v4: "map_of w ''paidGarageParking'' = Some v4"
    using map_of_present [of "''paidGarageParking''" w] k by auto
  obtain v5 where v5: "map_of w ''paidParkingLot'' = Some v5"
    using map_of_present [of "''paidParkingLot''" w] k by auto
  obtain v6 where v6: "map_of w ''paidStreetParking'' = Some v6"
    using map_of_present [of "''paidStreetParking''" w] k by auto
  obtain v7 where v7: "map_of w ''valetParking'' = Some v7"
    using map_of_present [of "''valetParking''" w] k by auto
  have l1: "map_of (key_map snakecase w) ''free_garage_parking'' = Some v1"
    using key_map_lookup [OF d inj v1] by (simp add: snakecase_def char_simps)
  have l2: "map_of (key_map snakecase w) ''free_parking_lot'' = Some v2"
    using key_map_lookup [OF d inj v2] by (simp add: snakecase_def char_simps)
  have l3: "map_of (key_map snakecase w) ''free_street_parking'' = Some v3"
    using key_map_lookup [OF d inj v3] by (simp add: snakecase_def char_simps)
  have l4: "map_of (key_map snakecase w) ''paid_garage_parking'' = Some v4"
    using key_map_lookup [OF d inj v4] by (simp add: snakecase_def char_simps)
  have l5: "map_of (key_map snakecase w) ''paid_parking_lot'' = Some v5"
    using key_map_lookup [OF d inj v5] by (simp add: snakecase_def char_simps)
  have l6: "map_of (key_map snakecase w) ''paid_street_parking'' = Some v6"
    using key_map_lookup [OF d inj v6] by (simp add: snakecase_def char_simps)
  have l7: "map_of (key_map snakecase w) ''valet_parking'' = Some v7"
    using key_map_lookup [OF d inj v7] by (simp add: snakecase_def char_simps)
  have u: "\<not> unexpected ParkingOptions_fields (key_map snakecase w)"
    unfolding unexpected_def key_map_keys k by (simp add: snakecase_def char_simps ParkingOptions_fields_def)
  have dec: "ParkingOptions_from_api_format check (JDict w) = Inr (ParkingOptions v1 v2 v3 v4 v5 v6 v7)"
    using u l1 l2 l3 l4 l5 l6 l7 c
    by (simp add: ParkingOptions_from_api_format_def dict_items_def ParkingOptions_init_def
          required_def optional_def)
  have enc: "ParkingOptions_to_api_format (ParkingOptions v1 v2 v3 v4 v5 v6 v7)
               = [(''freeGarageParking'', v1), (''freeParkingLot'', v2), (''freeStreetParking'', v3), (''paidGarageParking'', v4), (''paidParkingLot'', v5), (''paidStreetParking'', v6), (''valetParking'', v7)]"
    by (simp add: ParkingOptions_to_api_format_def key_map_def camelcase_def char_simps)
  have ks: "set (map fst w) = set (map fst [(''freeGarageParking'', v1), (''freeParkingLot'', v2), (''freeStreetParking'', v3), (''paidGarageParking'', v4), (''paidParkingLot'', v5), (''paidStreetParking'', v6), (''valetParking'', v7)])"
    unfolding k by simp
  have "dict_eq [(''freeGarageParking'', v1), (''freeParkingLot'', v2), (''freeStreetParking'', v3), (''paidGarageParking'', v4), (''paidParkingLot'', v5), (''paidStreetParking'', v6), (''valetParking'', v7)] w"
    using ks by (rule dict_eq_listed) (simp add: v1 v2 v3 v4 v5 v6 v7)
  with dec enc show ?thesis by simp
qed

lemma PaymentOptions_domain:
  assumes "check ''PaymentOptions'' (PaymentOptions_asdict x)"
  shows "PaymentOptions_from_api_format check (JDict (PaymentOptions_to_api_format x)) = Inr x"
  using assms
  by (cases x)
     (simp add: PaymentOptions_from_api_format_def PaymentOptions_to_api_format_def dict_items_def
        key_map_def camelcase_def snakecase_def char_simps PaymentOptions_init_def unexpected_def
        required_def optional_def PaymentOptions_fields_def)

lemma PaymentOptions_wire:
  assumes d: "distinct (map fst w)"
      and k: "set (map fst w) = {''acceptsCashOnly'', ''acceptsCreditCards'', ''acceptsDebitCards'', ''acceptsNfc''}"
      and c: "check ''PaymentOptions'' (key_map snakecase w)"
  shows "\<exists>x. PaymentOptions_from_api_format check (JDict w) = Inr x
           \<and> dict_eq (PaymentOptions_to_api_format x) w"
proof -
  have inj: "inj_on snakecase (set (map fst w))"
    unfolding k by (simp add: snakecase_def char_simps)
  obtain v1 where v1: "map_of w ''acceptsCashOnly'' = Some v1"
    using map_of_present [of "''acceptsCashOnly''" w] k by auto
  obtain v2 where v2: "map_of w ''acceptsCreditCards'' = Some v2"
    using map_of_present [of "''acceptsCreditCards''" w] k by auto
  obtain v3 where v3: "map_of w ''acceptsDebitCards'' = Some v3"
    using map_of_present [of "''acceptsDebitCards''" w] k by auto
  obtain v4 where v4: "map_of w ''acceptsNfc'' = Some v4"
    using map_of_present [of "''acceptsNfc''" w] k by auto
  have l1: "map_of (key_map snakecase w) ''accepts_cash_only'' = Some v1"
    using key_map_lookup [OF d inj v1] by (simp add: snakecase_def char_simps)
  have l2: "map_of (key_map snakecase w) ''accepts_credit_cards'' = Some v2"
    using key_map_lookup [OF d inj v2] by (simp add: snakecase_def char_simps)
  have l3: "map_of (key_map snakecase w) ''accepts_debit_cards'' = Some v3"
    using key_map_lookup [OF d inj v3] by (simp add: snakecase_def char_simps)
  have l4: "map_of (key_map snakecase w) ''accepts_nfc'' = Some v4"
    using key_map_lookup [OF d inj v4] by (simp add: snakecase_def char_simps)
  have u: "\<not> unexpected PaymentOptions_fields (key_map snakecase w)"
    unfolding unexpected_def key_map_keys k by (simp add: snakecase_def char_simps PaymentOptions_fields_def)
  have dec: "PaymentOptions_from_api_format check (JDict w) = Inr (PaymentOptions v1 v2 v3 v4)"
    using u l1 l2 l3 l4 c
    by (simp add: PaymentOptions_from_api_format_def dict_items_def PaymentOptions_init_def
          required_def optional_def)
  have enc: "PaymentOptions_to_api_format (PaymentOptions v1 v2 v3 v4)
               = [(''acceptsCashOnly'', v1), (''acceptsCreditCards'', v2), (''acceptsDebitCards'', v3), (''acceptsNfc'', v4)]"
    by (simp add: PaymentOptions_to_api_format_def key_map_def camelcase_def char_simps)
  have ks: "set (map fst w) = set (map fst [(''acceptsCashOnly'', v1), (''acceptsCreditCards'', v2), (''acceptsDebitCards'', v3), (''acceptsNfc'', v4)])"
    unfolding k by simp
  have "dict_eq [(''acceptsCashOnly'', v1), (''acceptsCreditCards'', v2), (''acceptsDebitCards'', v3), (''acceptsNfc'', v4)] w"
    using ks by (rule dict_eq_listed) (simp add: v1 v2 v3 v4)
  with dec enc show ?thesis by simp
qed

lemma PlusCode_domain:
  assumes "PlusCode_init check global_code compound_code = Inr x"
  shows "PlusCode_from_api_format check (JDict (PlusCode_to_api_format x)) = Inr x"
proof -
  have x: "x = PlusCode global_code compound_code"
    using assms by (auto simp: PlusCode_init_def split: if_splits)
  show ?thesis
    unfolding x using assms [unfolded x]
    by (simp add: PlusCode_from_api_format_def getitem_def)
qed

lemma PlusCode_wire:
  assumes k: "set (map fst w) = {''globalCode'', ''compoundCode''}"
      and v1: "map_of w ''globalCode'' = Some v1"
      and v2: "map_of w ''compoundCode'' = Some v2"
      and c: "check ''PlusCode'' [(''global_code'', v1), (''compound_code'', v2)]"
  shows "\<exists>x. PlusCode_from_api_format check (JDict w) = Inr x
           \<and> dict_eq (PlusCode_to_api_format x) w"
proof -
  have dec: "PlusCode_from_api_format check (JDict w) = Inr (PlusCode v1 v2)"
    using c by (simp add: PlusCode_from_api_format_def getitem_def v1 v2 PlusCode_init_def)
  have ks: "set (map fst w) = set (map fst [(''globalCode'', v1), (''compoundCode'', v2)])"
    unfolding k by simp
  have "dict_eq [(''globalCode'', v1), (''compoundCode'', v2)] w"
    using ks by (rule dict_eq_listed) (simp add: v1 v2)
  with dec show ?thesis by simp
qed

lemma PriceLevel_domain:
  "PriceLevel_from_api_format (JStr (PriceLevel_to_api_format p)) = Inr p"
  by (cases p)
     (simp_all add: PriceLevel_from_api_format_def PriceLevel_to_api_format_def removeprefix_def
        lower_def char_simps PriceLevel_of_value_def)

lemma BusinessStatus_domain:
  "BusinessStatus_from_api_format (JStr (BusinessStatus_to_api_format b)) = Inr b"
  by (cases b)
     (simp_all add: BusinessStatus_from_api_format_def BusinessStatus_to_api_format_def
        lower_def char_simps BusinessStatus_of_value_def)

lemma value_eq_refl: "value_eq a a"
  by (cases a) (simp_all add: value_eq_def dict_eq_iff)

lemma nested_dict_eq_listed:
  assumes "set (map fst w) = set (map fst d)"
      and "list_all (\<lambda>kv. \<exists>b. map_of d (fst kv) = Some (snd kv) \<and> map_of w (fst kv) = Some b
                              \<and> value_eq (snd kv) b) d"
  shows "nested_dict_eq d w"
  unfolding nested_dict_eq_def list_all_iff
proof
  fix k assume "k \<in> set (map fst d @ map fst w)"
  then have "k \<in> set (map fst d)" using assms(1) by auto
  then obtain kv where "kv \<in> set d" and "fst kv = k" by auto
  with assms(2) obtain b where "map_of d k = Some (snd kv)" "map_of w k = Some b" "value_eq (snd kv) b"
    by (auto simp: list_all_iff)
  then show "case map_of d k of None \<Rightarrow> map_of w k = None
             | Some a \<Rightarrow> (case map_of w k of None \<Rightarrow> False | Some b \<Rightarrow> value_eq a b)"
    by simp
qed

lemma LatLng_values:
  assumes "set (map fst c) = {''latitude'', ''longitude''}"
      and "map_of c ''latitude'' = Some lat" and "map_of c ''longitude'' = Some lng"
  shows "getitem (JDict c) ''latitude'' = Inr lat \<and> getitem (JDict c) ''longitude'' = Inr lng
           \<and> value_eq (JDict [(''latitude'', lat), (''longitude'', lng)]) (JDict c)"
proof -
  have ks: "set (map fst c) = set (map fst [(''latitude'', lat), (''longitude'', lng)])"
    unfolding assms(1) by simp
  have "dict_eq [(''latitude'', lat), (''longitude'', lng)] c"
    using ks by (rule dict_eq_listed) (simp add: assms(2,3))
  then show ?thesis by (simp add: getitem_def assms(2,3) value_eq_def)
qed

lemma CircularArea_domain:
  assumes "CircularArea_init check center radius = Inr x"
  shows "CircularArea_from_api_format check (JDict (CircularArea_to_api_format x)) = Inr x"
proof -
  have x: "x = CircularArea center radius"
    using assms by (auto simp: CircularArea_init_def split: option.splits if_splits)
  show ?thesis
    unfolding x using assms [unfolded x]
    by (simp add: CircularArea_from_api_format_def getitem_def)
qed

lemma CircularArea_wire:
  assumes k: "set (map fst w) = {''center'', ''radius''}"
      and c: "map_of w ''center'' = Some (JDict cd)"
      and ck: "set (map fst cd) = {''latitude'', ''longitude''}"
      and la: "map_of cd ''latitude'' = Some lat" and lo: "map_of cd ''longitude'' = Some lng"
      and r: "map_of w ''radius'' = Some rad"
      and v: "as_num rad = Some rv" "0 < rv" "rv \<le> 50000"
      and t: "check ''CircularArea'' [(''center'', JList [lat, lng]), (''radius'', rad)]"
  shows "\<exists>x. CircularArea_from_api_format check (JDict w) = Inr x
           \<and> nested_dict_eq (CircularArea_to_api_format x) w"
proof -
  from LatLng_values [OF ck la lo] have
      lat: "getitem (JDict cd) ''latitude'' = Inr lat"
      and lng: "getitem (JDict cd) ''longitude'' = Inr lng"
      and e: "value_eq (JDict [(''latitude'', lat), (''longitude'', lng)]) (JDict cd)"
    by simp_all
  have dec: "CircularArea_from_api_format check (JDict w) = Inr (CircularArea (lat, lng) rad)"
    using lat lng v t
    by (simp add: CircularArea_from_api_format_def getitem_def [of "JDict w"] c r CircularArea_init_def)
  have ks: "set (map fst w) = set (map fst [(''center'', JDict [(''latitude'', lat), (''longitude'', lng)]),
                                           (''radius'', rad)])"
    unfolding k by simp
  have "nested_dict_eq [(''center'', JDict [(''latitude'', lat), (''longitude'', lng)]), (''radius'', rad)] w"
    using ks by (rule nested_dict_eq_listed) (simp add: c r e value_eq_refl)
  with dec show ?thesis by simp
qed

lemma RectangularArea_domain:
  assumes "RectangularArea_init check south_west north_east = Inr x"
  shows "RectangularArea_from_api_format check (JDict (RectangularArea_to_api_format x)) = Inr x"
proof -
  have x: "x = RectangularArea south_west north_east"
    using assms by (auto simp: RectangularArea_init_def split: if_splits)
  show ?thesis
    unfolding x using assms [unfolded x]
    by (simp add: RectangularArea_from_api_format_def getitem_def)
qed

lemma RectangularArea_wire:
  assumes k: "set (map fst w) = {''low'', ''high''}"
      and l: "map_of w ''low'' = Some (JDict lo)"
      and lok: "set (map fst lo) = {''latitude'', ''longitude''}"
      and l1: "map_of lo ''latitude'' = Some lat1" and l2: "map_of lo ''longitude'' = Some lng1"
      and h: "map_of w ''high'' = Some (JDict hi)"
      and hik: "set (map fst hi) = {''latitude'', ''longitude''}"
      and h1: "map_of hi ''latitude'' = Some lat2" and h2: "map_of hi ''longitude'' = Some lng2"
      and t: "check ''RectangularArea''
                [(''south_west'', JList [lat1, lng1]), (''north_east'', JList [lat2, lng2])]"
  shows "\<exists>x. RectangularArea_from_api_format check (JDict w) = Inr x
           \<and> nested_dict_eq (RectangularArea_to_api_format x) w"
proof -
  from LatLng_values [OF lok l1 l2] have
      lat1: "getitem (JDict lo) ''latitude'' = Inr lat1"
      and lng1: "getitem (JDict lo) ''longitude'' = Inr lng1"
      and e1: "value_eq (JDict [(''latitude'', lat1), (''longitude'', lng1)]) (JDict lo)"
    by simp_all
  from LatLng_values [OF hik h1 h2] have
      lat2: "getitem (JDict hi) ''latitude'' = Inr lat2"
      and lng2: "getitem (JDict hi) ''longitude'' = Inr lng2"
      and e2: "value_eq (JDict [(''latitude'', lat2), (''longitude'', lng2)]) (JDict hi)"
    by simp_all
  have dec: "RectangularArea_from_api_format check (JDict w)
               = Inr (RectangularArea (lat1, lng1) (lat2, lng2))"
    using lat1 lng1 lat2 lng2 t
    by (simp add: RectangularArea_from_api_format_def getitem_def [of "JDict w"] l h
          RectangularArea_init_def)
  have ks: "set (map fst w)
              = set (map fst [(''low'', JDict [(''latitude'', lat1), (''longitude'', lng1)]),
                              (''high'', JDict [(''latitude'', lat2), (''longitude'', lng2)])])"
    unfolding k by simp
  have "nested_dict_eq [(''low'', JDict [(''latitude'', lat1), (''longitude'', lng1)]),
                        (''high'', JDict [(''latitude'', lat2), (''longitude'', lng2)])] w"
    using ks by (rule nested_dict_eq_listed) (simp add: l h e1 e2)
  with dec show ?thesis by simp
qed

text \<open>
  C4 (as amended). For CircularArea, RectangularArea, LocalizedString, AddressComponent,
  PlusCode, AuthorAttribution, ParkingOptions, PaymentOptions, PriceLevel and
  BusinessStatus, and whatever the release of \<open>pyserde\<close>: decoding the encoding of a value
  gives the value back, for a value that its constructor accepts (a CircularArea with a
  radius in the range, fields that pass the check of the arguments where the release
  has one); and for a wire value whose keys are exactly the keys of the type (a
  \<open>center\<close>, \<open>low\<close> or \<open>high\<close> with exactly a latitude and a longitude) and whose values
  the constructor accepts (for a circle, a radius above 0 and at most 50000), decoding
  succeeds and encoding the result gives a dictionary equal to the wire value; for the
  enumerations the wire values are the names of the wire format.
\<close>

theorem codecs_round_trip:
  "(\<forall>center radius x. CircularArea_init check center radius = Inr x \<longrightarrow>
       CircularArea_from_api_format check (JDict (CircularArea_to_api_format x)) = Inr x)
   \<and> (\<forall>south_west north_east x. RectangularArea_init check south_west north_east = Inr x \<longrightarrow>
       RectangularArea_from_api_format check (JDict (RectangularArea_to_api_format x)) = Inr x)
   \<and> (\<forall>x. check ''LocalizedString'' (LocalizedString_asdict x) \<longrightarrow>
       LocalizedString_from_api_format check (JDict (LocalizedString_to_api_format x)) = Inr x)
   \<and> (\<forall>x. check ''AddressComponent'' (AddressComponent_asdict x) \<longrightarrow>
       AddressComponent_from_api_format check (JDict (AddressComponent_to_api_format x)) = Inr x)
   \<and> (\<forall>global_code compound_code x. PlusCode_init check global_code compound_code = Inr x \<longrightarrow>
       PlusCode_from_api_format check (JDict (PlusCode_to_api_format x)) = Inr x)
   \<and> (\<forall>x. check ''AuthorAttribution'' (AuthorAttribution_asdict x) \<longrightarrow>
       AuthorAttribution_from_api_format check (JDict (AuthorAttribution_to_api_format x)) = Inr x)
   \<and> (\<forall>x. check ''ParkingOptions'' (ParkingOptions_asdict x) \<longrightarrow>
       ParkingOptions_from_api_format check (JDict (ParkingOptions_to_api_format x)) = Inr x)
   \<and> (\<forall>x. check ''PaymentOptions'' (PaymentOptions_asdict x) \<longrightarrow>
       PaymentOptions_from_api_format check (JDict (PaymentOptions_to_api_format x)) = Inr x)
   \<and> (\<forall>p. PriceLevel_from_api_format (JStr (PriceLevel_to_api_format p)) = Inr p)
   \<and> (\<forall>b. BusinessStatus_from_api_format (JStr (BusinessStatus_to_api_format b)) = Inr b)
   \<and> (\<forall>w c lat lng rad rv.
         set (map fst w) = {''center'', ''radius''} \<and> map_of w ''center'' = Some (JDict c)
         \<and> set (map fst c) = {''latitude'', ''longitude''}
         \<and> map_of c ''latitude'' = Some lat \<and> map_of c ''longitude'' = Some lng
         \<and> map_of w ''radius'' = Some rad \<and> as_num rad = Some rv \<and> 0 < rv \<and> rv \<le> 50000
         \<and> check ''CircularArea'' [(''center'', JList [lat, lng]), (''radius'', rad)] \<longrightarrow>
         (\<exists>x. CircularArea_from_api_format check (JDict w) = Inr x
              \<and> nested_dict_eq (CircularArea_to_api_format x) w))
   \<and> (\<forall>w lo lat1 lng1 hi lat2 lng2.
         set (map fst w) = {''low'', ''high''} \<and> map_of w ''low'' = Some (JDict lo)
         \<and> set (map fst lo) = {''latitude'', ''longitude''}
         \<and> map_of lo ''latitude'' = Some lat1 \<and> map_of lo ''longitude'' = Some lng1
         \<and> map_of w ''high'' = Some (JDict hi)
         \<and> set (map fst hi) = {''latitude'', ''longitude''}
         \<and> map_of hi ''latitude'' = Some lat2 \<and> map_of hi ''longitude'' = Some lng2
         \<and> check ''RectangularArea''
               [(''south_west'', JList [lat1, lng1]), (''north_east'', JList [lat2, lng2])] \<longrightarrow>
         (\<exists>x. RectangularArea_from_api_format check (JDict w) = Inr x
              \<and> nested_dict_eq (RectangularArea_to_api_format x) w))
   \<and> (\<forall>w. distinct (map fst w)
         \<and> set (map fst w) = {''text'', ''languageCode''}
         \<and> check ''LocalizedString'' (key_map snakecase w) \<longrightarrow>
         (\<exists>x. LocalizedString_from_api_format check (JDict w) = Inr x
              \<and> dict_eq (LocalizedString_to_api_format x) w))
   \<and> (\<forall>w. distinct (map fst w)
         \<and> set (map fst w) = {''longText'', ''shortText'', ''types'', ''languageCode''}
         \<and> check ''AddressComponent'' (key_map snakecase w) \<longrightarrow>
         (\<exists>x. AddressComponent_from_api_format check (JDict w) = Inr x
              \<and> dict_eq (AddressComponent_to_api_format x) w))
   \<and> (\<forall>w v1 v2. set (map fst w) = {''globalCode'', ''compoundCode''}
         \<and> map_of w ''globalCode'' = Some v1 \<and> map_of w ''compoundCode'' = Some v2
         \<and> check ''PlusCode'' [(''global_code'', v1), (''compound_code'', v2)] \<longrightarrow>
         (\<exists>x. PlusCode_from_api_format check (JDict w) = Inr x
              \<and> dict_eq (PlusCode_to_api_format x) w))
   \<and> (\<forall>w. distinct (map fst w)
         \<and> set (map fst w) = {''displayName'', ''uri'', ''photoUri''}
         \<and> check ''AuthorAttribution'' (key_map snakecase w) \<longrightarrow>
         (\<exists>x. AuthorAttribution_from_api_format check (JDict w) = Inr x
              \<and> dict_eq (AuthorAttribution_to_api_format x) w))
   \<and> (\<forall>w. distinct (map fst w)
         \<and> set (map fst w) = {''freeGarageParking'', ''freeParkingLot'', ''freeStreetParking'',
              ''paidGarageParking'', ''paidParkingLot'', ''paidStreetParking'', ''valetParking''}
         \<and> check ''ParkingOptions'' (key_map snakecase w) \<longrightarrow>
         (\<exists>x. ParkingOptions_from_api_format check (JDict w) = Inr x
              \<and> dict_eq (ParkingOptions_to_api_format x) w))
   \<and> (\<forall>w. distinct (map fst w)
         \<and> set (map fst w) = {''acceptsCashOnly'', ''acceptsCreditCards'', ''acceptsDebitCards'',
              ''acceptsNfc''}
         \<and> check ''PaymentOptions'' (key_map snakecase w) \<longrightarrow>
         (\<exists>x. PaymentOptions_from_api_format check (JDict w) = Inr x
              \<and> dict_eq (PaymentOptions_to_api_format x) w))
   \<and> list_all (\<lambda>w. \<exists>p. PriceLevel_from_api_format (JStr w) = Inr p \<and> PriceLevel_to_api_format p = w)
        [''PRICE_LEVEL_UNSPECIFIED'', ''PRICE_LEVEL_FREE'', ''PRICE_LEVEL_INEXPENSIVE'',
         ''PRICE_LEVEL_MODERATE'', ''PRICE_LEVEL_EXPENSIVE'', ''PRICE_LEVEL_VERY_EXPENSIVE'']
   \<and> list_all (\<lambda>w. \<exists>b. BusinessStatus_from_api_format (JStr w) = Inr b
                        \<and> BusinessStatus_to_api_format b = w)
        [''OPERATIONAL'', ''CLOSED_TEMPORARILY'', ''CLOSED_PERMANENTLY'']"
proof -
  have p: "\<exists>p. PriceLevel_from_api_format (JStr (PriceLevel_to_api_format q)) = Inr p
              \<and> PriceLevel_to_api_format p = PriceLevel_to_api_format q" for q
    using PriceLevel_domain [of q] by blast
  have pl: "list_all (\<lambda>w. \<exists>p. PriceLevel_from_api_format (JStr w) = Inr p \<and> PriceLevel_to_api_format p = w)
        [''PRICE_LEVEL_UNSPECIFIED'', ''PRICE_LEVEL_FREE'', ''PRICE_LEVEL_INEXPENSIVE'',
         ''PRICE_LEVEL_MODERATE'', ''PRICE_LEVEL_EXPENSIVE'', ''PRICE_LEVEL_VERY_EXPENSIVE'']"
    using p [of UNSPECIFIED] p [of FREE] p [of INEXPENSIVE] p [of MODERATE] p [of EXPENSIVE]
      p [of VERY_EXPENSIVE]
    by (simp add: PriceLevel_to_api_format_def)
  have b: "\<exists>b. BusinessStatus_from_api_format (JStr (BusinessStatus_to_api_format q)) = Inr b
              \<and> BusinessStatus_to_api_format b = BusinessStatus_to_api_format q" for q
    using BusinessStatus_domain [of q] by blast
  have bs: "list_all (\<lambda>w. \<exists>b. BusinessStatus_from_api_format (JStr w) = Inr b
                        \<and> BusinessStatus_to_api_format b = w)
        [''OPERATIONAL'', ''CLOSED_TEMPORARILY'', ''CLOSED_PERMANENTLY'']"
    using b [of OPERATIONAL] b [of CLOSED_TEMPORARILY] b [of CLOSED_PERMANENTLY]
    by (simp add: BusinessStatus_to_api_format_def)
  show ?thesis
    apply (intro conjI allI impI)
    subgoal by (rule CircularArea_domain)
    subgoal by (rule RectangularArea_domain)
    subgoal by (rule LocalizedString_domain)
    subgoal by (rule AddressComponent_domain)
    subgoal by (rule PlusCode_domain)
    subgoal by (rule AuthorAttribution_domain)
    subgoal by (rule ParkingOptions_domain)
    subgoal by (rule PaymentOptions_domain)
    subgoal by (rule PriceLevel_domain)
    subgoal by (rule BusinessStatus_domain)
    subgoal by (elim conjE) (rule CircularArea_wire)
    subgoal by (elim conjE) (rule RectangularArea_wire)
    subgoal by (elim conjE) (rule LocalizedString_wire)
    subgoal by (elim conjE) (rule AddressComponent_wire)
    subgoal by (elim conjE) (rule PlusCode_wire)
    subgoal by (elim conjE) (rule AuthorAttribution_wire)
    subgoal by (elim conjE) (rule ParkingOptions_wire)
    subgoal by (elim conjE) (rule PaymentOptions_wire)
    subgoal by (rule pl)
    subgoal by (rule bs)
    done
qed

theorem codecs_round_trip_witness:
  "(\<exists>x. LocalizedString_from_api_format (\<lambda>c kw. True)
           (JDict [(''text'', JStr ''Bar''), (''languageCode'', JStr ''en'')]) = Inr x
        \<and> dict_eq (LocalizedString_to_api_format x)
             [(''text'', JStr ''Bar''), (''languageCode'', JStr ''en'')])
   \<and> (\<exists>x. CircularArea_from_api_format (\<lambda>c kw. True)
           (JDict [(''center'', JDict [(''latitude'', JFloat (91 / 2)), (''longitude'', JFloat (37 / 4))]),
                   (''radius'', JInt 100)]) = Inr x
        \<and> nested_dict_eq (CircularArea_to_api_format x)
             [(''center'', JDict [(''latitude'', JFloat (91 / 2)), (''longitude'', JFloat (37 / 4))]),
              (''radius'', JInt 100)])"
proof -
  let ?check = "\<lambda>(c::string) (kw::pydict). True"
  let ?ls = "[(''text'', JStr ''Bar''), (''languageCode'', JStr ''en'')]"
  let ?center = "[(''latitude'', JFloat (91 / 2)), (''longitude'', JFloat (37 / 4))]"
  let ?circle = "[(''center'', JDict ?center), (''radius'', JInt 100)]"
  have a: "distinct (map fst ?ls) \<and> set (map fst ?ls) = {''text'', ''languageCode''}
           \<and> ?check ''LocalizedString'' (key_map snakecase ?ls)"
    by simp
  have b: "set (map fst ?circle) = {''center'', ''radius''}
         \<and> map_of ?circle ''center'' = Some (JDict ?center)
         \<and> set (map fst ?center) = {''latitude'', ''longitude''}
         \<and> map_of ?center ''latitude'' = Some (JFloat (91 / 2))
         \<and> map_of ?center ''longitude'' = Some (JFloat (37 / 4))
         \<and> map_of ?circle ''radius'' = Some (JInt 100)
         \<and> as_num (JInt 100) = Some 100 \<and> (0::real) < 100 \<and> (100::real) \<le> 50000
         \<and> ?check ''CircularArea''
               [(''center'', JList [JFloat (91 / 2), JFloat (37 / 4)]), (''radius'', JInt 100)]"
    by (simp add: as_num_def)
  have ls: "\<forall>w. distinct (map fst w)
         \<and> set (map fst w) = {''text'', ''languageCode''}
         \<and> ?check ''LocalizedString'' (key_map snakecase w) \<longrightarrow>
         (\<exists>x. LocalizedString_from_api_format ?check (JDict w) = Inr x
              \<and> dict_eq (LocalizedString_to_api_format x) w)"
    using codecs_round_trip [of ?check] by (elim conjE) assumption
  have ca: "(\<forall>w c lat lng rad rv.
         set (map fst w) = {''center'', ''radius''} \<and> map_of w ''center'' = Some (JDict c)
         \<and> set (map fst c) = {''latitude'', ''longitude''}
         \<and> map_of c ''latitude'' = Some lat \<and> map_of c ''longitude'' = Some lng
         \<and> map_of w ''radius'' = Some rad \<and> as_num rad = Some rv \<and> 0 < rv \<and> rv \<le> 50000
         \<and> ?check ''CircularArea'' [(''center'', JList [lat, lng]), (''radius'', rad)] \<longrightarrow>
         (\<exists>x. CircularArea_from_api_format ?check (JDict w) = Inr x
              \<and> nested_dict_eq (CircularArea_to_api_format x) w))"
    using codecs_round_trip [of ?check] by (elim conjE) assumption
  from ls [rule_format, OF a] ca [rule_format, OF b] show ?thesis by (rule conjI)
qed

text \<open>
  A wire value that leaves an optional key out is decoded (the field defaults to \<open>None\<close>)
  and encoded back with every key, the absent ones as \<open>null\<close>: the round trip from the
  wire does not give the wire value back. The value of the example is a boolean, as the
  annotation of the field wants it, so a release that checks the arguments accepts it
  as well.
\<close>

theorem codecs_round_trip_counterexample:
  "ParkingOptions_from_api_format (\<lambda>c kw. True) (JDict [(''valetParking'', JBool True)])
     = Inr (ParkingOptions JNull JNull JNull JNull JNull JNull (JBool True))
   \<and> ParkingOptions_to_api_format (ParkingOptions JNull JNull JNull JNull JNull JNull (JBool True))
     = [(''freeGarageParking'', JNull), (''freeParkingLot'', JNull), (''freeStreetParking'', JNull),
        (''paidGarageParking'', JNull), (''paidParkingLot'', JNull), (''paidStreetParking'', JNull),
        (''valetParking'', JBool True)]
   \<and> \<not> dict_eq
          (ParkingOptions_to_api_format (ParkingOptions JNull JNull JNull JNull JNull JNull (JBool True)))
          [(''valetParking'', JBool True)]"
proof -
  have enc: "ParkingOptions_to_api_format (ParkingOptions JNull JNull JNull JNull JNull JNull (JBool True))
     = [(''freeGarageParking'', JNull), (''freeParkingLot'', JNull), (''freeStreetParking'', JNull),
        (''paidGarageParking'', JNull), (''paidParkingLot'', JNull), (''paidStreetParking'', JNull),
        (''valetParking'', JBool True)]"
    by (simp add: ParkingOptions_to_api_format_def key_map_def camelcase_def char_simps)
  have dec: "ParkingOptions_from_api_format (\<lambda>c kw. True) (JDict [(''valetParking'', JBool True)])
     = Inr (ParkingOptions JNull JNull JNull JNull JNull JNull (JBool True))"
    by (simp add: ParkingOptions_from_api_format_def dict_items_def key_map_def snakecase_def
          char_simps ParkingOptions_init_def unexpected_def ParkingOptions_fields_def optional_def)
  have ne: "\<not> dict_eq
          [(''freeGarageParking'', JNull), (''freeParkingLot'', JNull), (''freeStreetParking'', JNull),
           (''paidGarageParking'', JNull), (''paidParkingLot'', JNull), (''paidStreetParking'', JNull),
           (''valetParking'', JBool True)]
          [(''valetParking'', JBool True)]"
    by (simp add: dict_eq_def)
  show ?thesis using enc dec ne by simp
qed

section \<open>Properties of the review and of the place\<close>

text \<open>
  C9. The claim asks that \<open>to_api_format\<close> succeeds on every review and that decoding
  its result gives the review back. The code does not: \<open>dataclasses.asdict\<close> has already
  turned the nested \<open>LocalizedString\<close> into a dictionary when \<open>to_api_format\<close> is called
  on it, so every call of \<open>Review.to_api_format\<close> raises \<open>AttributeError\<close>.
\<close>

theorem Review_to_api_format_raises:
  "Review_to_api_format isoformat r = Inl AttributeError"
  by (cases r) (simp add: Review_to_api_format_def lookup_def)







section \<open>Properties of the client\<close>

lemma photo_request_invalid:
  assumes "(max_width = None \<and> max_height = None)
           \<or> (\<exists>w. max_width = Some w \<and> (w < 1 \<or> 4800 < w))
           \<or> (\<exists>h. max_height = Some h \<and> (h < 1 \<or> 4800 < h))"
  shows "\<exists>msg. photo_request api_key photo max_width max_height = Inl (ValueError msg)"
proof (cases "max_width = None \<and> max_height = None")
  case True
  then show ?thesis by (simp add: photo_request_def)
next
  case nb: False
  show ?thesis
  proof (cases "case max_width of None \<Rightarrow> False | Some w \<Rightarrow> \<not> (1 \<le> w \<and> w \<le> 4800)")
    case True
    with nb show ?thesis by (simp add: photo_request_def)
  next
    case wok: False
    from assms nb wok have "case max_height of None \<Rightarrow> False | Some h \<Rightarrow> \<not> (1 \<le> h \<and> h \<le> 4800)"
      by (auto split: option.splits)
    with nb wok show ?thesis by (simp add: photo_request_def)
  qed
qed

lemma photo_request_both:
  assumes "1 \<le> w" "w \<le> 4800" "1 \<le> h" "h \<le> 4800"
  shows "photo_request api_key (Photo (JStr s) ph pw authors) (Some w) (Some h)
           = Inr \<lparr> verb = ''GET'',
                   url = ''https://places.googleapis.com/v1/'' @ strip_slash s @ ''/media'',
                   headers = [(''X-Goog-Api-Key'', api_key)],
                   params = Some [(''skipHttpRedirect'', JStr ''true''), (''maxWidthPx'', JInt w)],
                   json_body = None \<rparr>"
  using assms by (simp add: photo_request_def)

text \<open>
  C6. \<open>get_photo_uri\<close> raises a \<open>ValueError\<close>, and sends no request, when both bounds are
  \<open>None\<close> and when a given bound is outside \<open>[1, 4800]\<close>; when both bounds are given and
  valid, the request it sends has the query parameters \<open>skipHttpRedirect\<close> and
  \<open>maxWidthPx\<close> only, without \<open>maxHeightPx\<close>.
\<close>

theorem get_photo_uri_bounds:
  "((max_width = None \<and> max_height = None)
      \<or> (\<exists>w. max_width = Some w \<and> (w < 1 \<or> 4800 < w))
      \<or> (\<exists>h. max_height = Some h \<and> (h < 1 \<or> 4800 < h)) \<longrightarrow>
      (\<exists>msg. get_photo_uri send api_key photo max_width max_height
               = (Inl (Raised (ValueError msg)), [])))
   \<and> (1 \<le> w \<and> w \<le> 4800 \<and> 1 \<le> h \<and> h \<le> 4800 \<longrightarrow>
      (\<exists>req. snd (get_photo_uri send api_key (Photo (JStr s) ph pw authors) (Some w) (Some h)) = [req]
           \<and> params req = Some [(''skipHttpRedirect'', JStr ''true''), (''maxWidthPx'', JInt w)]
           \<and> map_of [(''skipHttpRedirect'', JStr ''true''), (''maxWidthPx'', JInt w)] ''maxHeightPx''
               = None))"
proof (intro conjI impI)
  assume "(max_width = None \<and> max_height = None)
      \<or> (\<exists>w. max_width = Some w \<and> (w < 1 \<or> 4800 < w))
      \<or> (\<exists>h. max_height = Some h \<and> (h < 1 \<or> 4800 < h))"
  then obtain msg where "photo_request api_key photo max_width max_height = Inl (ValueError msg)"
    using photo_request_invalid by blast
  then have "get_photo_uri send api_key photo max_width max_height
               = (Inl (Raised (ValueError msg)), [])"
    by (simp add: get_photo_uri_def)
  then show "\<exists>msg. get_photo_uri send api_key photo max_width max_height
               = (Inl (Raised (ValueError msg)), [])" ..
next
  assume "1 \<le> w \<and> w \<le> 4800 \<and> 1 \<le> h \<and> h \<le> 4800"
  then have r: "photo_request api_key (Photo (JStr s) ph pw authors) (Some w) (Some h)
           = Inr \<lparr> verb = ''GET'',
                   url = ''https://places.googleapis.com/v1/'' @ strip_slash s @ ''/media'',
                   headers = [(''X-Goog-Api-Key'', api_key)],
                   params = Some [(''skipHttpRedirect'', JStr ''true''), (''maxWidthPx'', JInt w)],
                   json_body = None \<rparr>"
    by (intro photo_request_both) simp_all
  let ?req = "\<lparr> verb = ''GET'',
                   url = ''https://places.googleapis.com/v1/'' @ strip_slash s @ ''/media'',
                   headers = [(''X-Goog-Api-Key'', api_key)],
                   params = Some [(''skipHttpRedirect'', JStr ''true''), (''maxWidthPx'', JInt w)],
                   json_body = None \<rparr>"
  have "snd (get_photo_uri send api_key (Photo (JStr s) ph pw authors) (Some w) (Some h)) = [?req]"
    unfolding get_photo_uri_def r by (simp add: Let_def split: sum.splits)
  moreover have "params ?req = Some [(''skipHttpRedirect'', JStr ''true''), (''maxWidthPx'', JInt w)]"
    by simp
  moreover have "map_of [(''skipHttpRedirect'', JStr ''true''), (''maxWidthPx'', JInt w)] ''maxHeightPx''
               = None" by simp
  ultimately show "\<exists>req. snd (get_photo_uri send api_key (Photo (JStr s) ph pw authors) (Some w) (Some h)) = [req]
           \<and> params req = Some [(''skipHttpRedirect'', JStr ''true''), (''maxWidthPx'', JInt w)]
           \<and> map_of [(''skipHttpRedirect'', JStr ''true''), (''maxWidthPx'', JInt w)] ''maxHeightPx''
               = None"
    by blast
qed

theorem get_photo_uri_bounds_witness:
  "(\<exists>msg. get_photo_uri (\<lambda>r. (200, JDict [(''photoUri'', JStr ''u'')])) ''AIzaKey''
            (Photo (JStr ''places/p/photos/q'') (JInt 10) (JInt 10) []) (Some 5000) None
          = (Inl (Raised (ValueError msg)), []))
   \<and> (\<exists>msg. get_photo_uri (\<lambda>r. (200, JDict [(''photoUri'', JStr ''u'')])) ''AIzaKey''
            (Photo (JStr ''places/p/photos/q'') (JInt 10) (JInt 10) []) None None
          = (Inl (Raised (ValueError msg)), []))
   \<and> (\<exists>req. snd (get_photo_uri (\<lambda>r. (200, JDict [(''photoUri'', JStr ''u'')])) ''AIzaKey''
            (Photo (JStr ''places/p/photos/q'') (JInt 10) (JInt 10) []) (Some 100) (Some 200)) = [req]
           \<and> params req = Some [(''skipHttpRedirect'', JStr ''true''), (''maxWidthPx'', JInt 100)]
           \<and> map_of [(''skipHttpRedirect'', JStr ''true''), (''maxWidthPx'', JInt 100)] ''maxHeightPx''
               = None)"
proof -
  have a: "(Some 5000 = (None::int option) \<and> (None::int option) = None)
      \<or> (\<exists>w. Some 5000 = Some w \<and> (w < 1 \<or> 4800 < (w::int)))
      \<or> (\<exists>h. (None::int option) = Some h \<and> (h < 1 \<or> 4800 < h))"
    by simp
  have b: "((None::int option) = None \<and> (None::int option) = None)
      \<or> (\<exists>w. (None::int option) = Some w \<and> (w < 1 \<or> 4800 < w))
      \<or> (\<exists>h. (None::int option) = Some h \<and> (h < 1 \<or> 4800 < h))"
    by simp
  have c: "(1::int) \<le> 100 \<and> (100::int) \<le> 4800 \<and> (1::int) \<le> 200 \<and> (200::int) \<le> 4800" by simp
  show ?thesis
    by (intro conjI
          get_photo_uri_bounds [THEN conjunct1, THEN mp, OF a]
          get_photo_uri_bounds [THEN conjunct1, THEN mp, OF b]
          get_photo_uri_bounds [THEN conjunct2, THEN mp, OF c])
qed

lemma text_search_checks_invalid:
  assumes "query a = []
           \<or> (bias_area a \<noteq> None \<and> restrict_area a \<noteq> None)
           \<or> page_size a < 1 \<or> 20 < page_size a
           \<or> (\<exists>r. min_rating a = Some r \<and> (r < 0 \<or> 5 < r))
           \<or> (\<exists>ls. price_levels a = Some ls \<and> FREE \<in> set ls)"
  shows "\<exists>msg. text_search_checks a = Inl (ValueError msg)"
proof (cases "query a = []")
  case True
  then show ?thesis by (simp add: text_search_checks_def)
next
  case q: False
  show ?thesis
  proof (cases "bias_area a \<noteq> None \<and> restrict_area a \<noteq> None")
    case True
    with q show ?thesis by (simp add: text_search_checks_def)
  next
    case b: False
    show ?thesis
    proof (cases "0 < page_size a \<and> page_size a \<le> 20")
      case False
      with q b show ?thesis by (simp add: text_search_checks_def)
    next
      case p: True
      show ?thesis
      proof (cases "case min_rating a of None \<Rightarrow> False | Some r \<Rightarrow> \<not> (0 \<le> r \<and> r \<le> 5)")
        case True
        with q b p show ?thesis by (simp add: text_search_checks_def)
      next
        case m: False
        from assms q b p m have "FREE \<in> set (case price_levels a of None \<Rightarrow> [] | Some ls \<Rightarrow> ls)"
          by (auto split: option.splits)
        with q b p m show ?thesis by (simp add: text_search_checks_def)
      qed
    qed
  qed
qed

lemma text_search_checks_error:
  assumes "text_search_checks a = Inl e"
  shows "\<exists>msg. e = ValueError msg"
  using assms by (auto simp: text_search_checks_def split: if_splits)

lemma create_field_mask_error:
  assumes "create_field_mask iter requested add_prefix = Inl e"
  shows "\<exists>msg. e = ValueError msg"
  using assms by (auto simp: create_field_mask_def Let_def split: if_splits)

lemma text_search_body_circular:
  assumes "restrict_area a = Some (Circular c)"
  shows "text_search_body a = Inl (ValueError ''The restrict area must be a rectangular area.'')"
  using assms by (simp add: text_search_body_def Let_def)

lemma text_search_body_error:
  assumes "text_search_body a = Inl e"
  shows "\<exists>msg. e = ValueError msg"
  using assms by (auto simp: text_search_body_def Let_def split: option.splits Area.splits)

lemma text_search_body_ok:
  assumes "\<forall>c. restrict_area a \<noteq> Some (Circular c)"
  shows "\<exists>body. text_search_body a = Inr body"
  using assms by (simp add: text_search_body_def Let_def split: option.splits Area.splits)

lemma text_search_request_invalid:
  assumes "query a = []
           \<or> (bias_area a \<noteq> None \<and> restrict_area a \<noteq> None)
           \<or> page_size a < 1 \<or> 20 < page_size a
           \<or> (\<exists>r. min_rating a = Some r \<and> (r < 0 \<or> 5 < r))
           \<or> (\<exists>ls. price_levels a = Some ls \<and> FREE \<in> set ls)
           \<or> (\<exists>c. restrict_area a = Some (Circular c))"
  shows "\<exists>msg. text_search_request iter api_key a = Inl (ValueError msg)"
proof (cases "text_search_checks a")
  case (Inl e)
  with text_search_checks_error [OF Inl] show ?thesis
    by (auto simp: text_search_request_def)
next
  case checks: (Inr u)
  with text_search_checks_invalid [of a] assms
  obtain c where c: "restrict_area a = Some (Circular c)" by fastforce
  show ?thesis
  proof (cases "create_field_mask iter (field_names a) True")
    case (Inl e)
    with create_field_mask_error [OF Inl] checks show ?thesis
      by (auto simp: text_search_request_def)
  next
    case (Inr mask)
    with checks text_search_body_circular [OF c] show ?thesis
      by (simp add: text_search_request_def)
  qed
qed

lemma text_search_checks_ok:
  assumes "query a \<noteq> []" and "bias_area a = None \<or> restrict_area a = None"
      and "1 \<le> page_size a" and "page_size a \<le> 20"
      and "min_rating a = Some r" and "0 \<le> r" and "r \<le> 5"
      and "price_levels a = None \<or> (\<exists>ls. price_levels a = Some ls \<and> FREE \<notin> set ls)"
  shows "text_search_checks a = Inr ()"
  using assms by (auto simp: text_search_checks_def)

text \<open>
  C5. \<open>search_places_by_text\<close> raises a \<open>ValueError\<close>, and sends no request, when the
  query is empty, when both a bias area and a restrict area are given, when the page size
  is outside \<open>[1, 20]\<close>, when the minimum rating is outside \<open>[0, 5]\<close>, when the price
  levels contain \<open>FREE\<close>, and when the restrict area is circular. A minimum rating of 5
  passes the checks; with valid field names and no circular restrict area the request is
  sent, with the rating in its body.
\<close>

theorem search_places_by_text_validation:
  "(query a = []
      \<or> (bias_area a \<noteq> None \<and> restrict_area a \<noteq> None)
      \<or> page_size a < 1 \<or> 20 < page_size a
      \<or> (\<exists>r. min_rating a = Some r \<and> (r < 0 \<or> 5 < r))
      \<or> (\<exists>ls. price_levels a = Some ls \<and> FREE \<in> set ls)
      \<or> (\<exists>c. restrict_area a = Some (Circular c)) \<longrightarrow>
      (\<exists>msg. search_places_by_text iter send check parse api_key a = (Inl (Raised (ValueError msg)), [])))
   \<and> (query a \<noteq> [] \<and> (bias_area a = None \<or> restrict_area a = None)
        \<and> 1 \<le> page_size a \<and> page_size a \<le> 20 \<and> min_rating a = Some 5
        \<and> (price_levels a = None \<or> (\<exists>ls. price_levels a = Some ls \<and> FREE \<notin> set ls)) \<longrightarrow>
      text_search_checks a = Inr ()
      \<and> ((\<exists>mask. create_field_mask iter (field_names a) True = Inr mask)
           \<and> (\<forall>c. restrict_area a \<noteq> Some (Circular c)) \<longrightarrow>
           (\<exists>req body. snd (search_places_by_text iter send check parse api_key a) = [req]
              \<and> json_body req = Some body \<and> map_of body ''minRating'' = Some (JFloat 5))))"
proof (intro conjI impI)
  assume "query a = []
      \<or> (bias_area a \<noteq> None \<and> restrict_area a \<noteq> None)
      \<or> page_size a < 1 \<or> 20 < page_size a
      \<or> (\<exists>r. min_rating a = Some r \<and> (r < 0 \<or> 5 < r))
      \<or> (\<exists>ls. price_levels a = Some ls \<and> FREE \<in> set ls)
      \<or> (\<exists>c. restrict_area a = Some (Circular c))"
  then obtain msg where "text_search_request iter api_key a = Inl (ValueError msg)"
    using text_search_request_invalid by blast
  then have "search_places_by_text iter send check parse api_key a = (Inl (Raised (ValueError msg)), [])"
    by (simp add: search_places_by_text_def)
  then show "\<exists>msg. search_places_by_text iter send check parse api_key a = (Inl (Raised (ValueError msg)), [])" ..
next
  assume h: "query a \<noteq> [] \<and> (bias_area a = None \<or> restrict_area a = None)
        \<and> 1 \<le> page_size a \<and> page_size a \<le> 20 \<and> min_rating a = Some 5
        \<and> (price_levels a = None \<or> (\<exists>ls. price_levels a = Some ls \<and> FREE \<notin> set ls))"
  then show "text_search_checks a = Inr ()"
    by (intro text_search_checks_ok [where r = 5]) simp_all
next
  assume h: "query a \<noteq> [] \<and> (bias_area a = None \<or> restrict_area a = None)
        \<and> 1 \<le> page_size a \<and> page_size a \<le> 20 \<and> min_rating a = Some 5
        \<and> (price_levels a = None \<or> (\<exists>ls. price_levels a = Some ls \<and> FREE \<notin> set ls))"
    and g: "(\<exists>mask. create_field_mask iter (field_names a) True = Inr mask)
           \<and> (\<forall>c. restrict_area a \<noteq> Some (Circular c))"
  from h have checks: "text_search_checks a = Inr ()"
    by (intro text_search_checks_ok [where r = 5]) simp_all
  from g obtain mask where mask: "create_field_mask iter (field_names a) True = Inr mask" by blast
  from g obtain body where body: "text_search_body a = Inr body"
    using text_search_body_ok by blast
  have m: "map_of body ''minRating'' = Some (JFloat 5)"
    using body h
    by (auto simp: text_search_body_def Let_def map_of_dict_set split: option.splits Area.splits if_splits)
  let ?req = "\<lparr> verb = ''POST'',
           url = ''https://places.googleapis.com/v1/places:searchText'',
           headers = [(''X-Goog-Api-Key'', api_key), (''X-Goog-FieldMask'', mask)],
           params = None,
           json_body = Some body \<rparr>"
  have r: "text_search_request iter api_key a = Inr ?req"
    by (simp add: text_search_request_def checks mask body)
  have "snd (search_places_by_text iter send check parse api_key a) = [?req]"
    unfolding search_places_by_text_def r by (simp add: Let_def split: sum.splits)
  moreover have "json_body ?req = Some body" by simp
  ultimately show "\<exists>req body. snd (search_places_by_text iter send check parse api_key a) = [req]
              \<and> json_body req = Some body \<and> map_of body ''minRating'' = Some (JFloat 5)"
    using m by blast
qed


theorem search_places_by_text_validation_witness:
  "(\<exists>msg. search_places_by_text (\<lambda>S. filter (\<lambda>f. f \<in> S) Place_fields)
       (\<lambda>r. (200, JDict [(''places'', JList [])])) (\<lambda>c kw. True) (\<lambda>j. Inr j) ''AIzaKey''
       \<lparr> query = ''pizza'', field_names = [''rating''], included_type = None,
         language_code = ''en'', bias_area = None, restrict_area = None, page_size = 20,
         next_page_token = None, min_rating = Some (11 / 2), open_now = False,
         price_levels = None, rank_by = ''relevance'' \<rparr>
       = (Inl (Raised (ValueError msg)), []))
   \<and> text_search_checks
       \<lparr> query = ''pizza'', field_names = [''rating''], included_type = None,
         language_code = ''en'', bias_area = None, restrict_area = None, page_size = 20,
         next_page_token = None, min_rating = Some (5), open_now = False,
         price_levels = None, rank_by = ''relevance'' \<rparr> = Inr ()"
proof -
  let ?a = "\<lparr> query = ''pizza'', field_names = [''rating''], included_type = None,
         language_code = ''en'', bias_area = None, restrict_area = None, page_size = 20,
         next_page_token = None, min_rating = Some (11 / 2), open_now = False,
         price_levels = None, rank_by = ''relevance'' \<rparr>"
  let ?b = "\<lparr> query = ''pizza'', field_names = [''rating''], included_type = None,
         language_code = ''en'', bias_area = None, restrict_area = None, page_size = 20,
         next_page_token = None, min_rating = Some (5), open_now = False,
         price_levels = None, rank_by = ''relevance'' \<rparr>"
  have h: "query ?a = []
      \<or> (bias_area ?a \<noteq> None \<and> restrict_area ?a \<noteq> None)
      \<or> page_size ?a < 1 \<or> 20 < page_size ?a
      \<or> (\<exists>r. min_rating ?a = Some r \<and> (r < 0 \<or> 5 < r))
      \<or> (\<exists>ls. price_levels ?a = Some ls \<and> FREE \<in> set ls)
      \<or> (\<exists>c. restrict_area ?a = Some (Circular c))"
  proof -
    have "min_rating ?a = Some (11 / 2) \<and> ((11 / 2 :: real) < 0 \<or> 5 < (11 / 2 :: real))"
      by simp
    then show ?thesis by blast
  qed
  have g: "query ?b \<noteq> [] \<and> (bias_area ?b = None \<or> restrict_area ?b = None)
        \<and> 1 \<le> page_size ?b \<and> page_size ?b \<le> 20 \<and> min_rating ?b = Some 5
        \<and> (price_levels ?b = None \<or> (\<exists>ls. price_levels ?b = Some ls \<and> FREE \<notin> set ls))"
    by simp
  show ?thesis
    by (intro conjI
          search_places_by_text_validation [THEN conjunct1, THEN mp, OF h]
          search_places_by_text_validation [THEN conjunct2, THEN mp, OF g, THEN conjunct1])
qed

end
